theory Spec2Isabelle
  imports Main "HOL-Library.Sublist" "HOL-Library.Multiset"
begin

section \<open>JavaScript strings and values\<close>

text \<open>
  The repository holds three revisions of the one server file: \<^verbatim>\<open>server.js\<close>,
  \<^verbatim>\<open>unnamed/part_001\<close> (firstname/lastname schema, original-image upload) and
  \<^verbatim>\<open>unnamed/part_002\<close> (the earliest one, with the constant prompt). Definitions without
  a suffix embed \<^verbatim>\<open>server.js\<close>; the suffixes \<open>_p001\<close> and \<open>_p002\<close> mark the other two.

  A JavaScript string is modelled as a \<^typ>\<open>string\<close> whose characters stand for the code
  units U+0000 .. U+00FF. A value that is either \<^verbatim>\<open>undefined\<close>/\<^verbatim>\<open>null\<close> or a
  string is a \<^typ>\<open>string option\<close>.
\<close>

definition falsy :: "string option \<Rightarrow> bool" where
  \<comment> \<open>\<^verbatim>\<open>!v\<close> for a value that is undefined, null or a string\<close>
  "falsy v = (case v of None \<Rightarrow> True | Some s \<Rightarrow> s = [])"

definition isWhiteSpace :: "char \<Rightarrow> bool" where
  \<comment> \<open>WhiteSpace and LineTerminator code units below U+0100: TAB, LF, VT, FF, CR, SP, NBSP\<close>
  "isWhiteSpace c = ((of_char c :: nat) \<in> {9, 10, 11, 12, 13, 32, 160})"

definition trim :: "string \<Rightarrow> string" where
  \<comment> \<open>\<^verbatim>\<open>String.prototype.trim\<close>\<close>
  "trim s = rev (dropWhile isWhiteSpace (rev (dropWhile isWhiteSpace s)))"

definition trimmed :: "string option \<Rightarrow> string option" where
  \<comment> \<open>\<^verbatim>\<open>v?.trim()\<close>\<close>
  "trimmed v = map_option trim v"

definition truthy :: "string option \<Rightarrow> string option" where
  \<comment> \<open>the string held by a truthy value; \<open>None\<close> for undefined, null and the empty string\<close>
  "truthy v = (case v of None \<Rightarrow> None | Some s \<Rightarrow> if s = [] then None else Some s)"

definition trimmed_or_null :: "string option \<Rightarrow> string option" where
  \<comment> \<open>\<^verbatim>\<open>v?.trim() || null\<close>: the empty string becomes null\<close>
  "trimmed_or_null v = truthy (trimmed v)"

definition lowerChar :: "char \<Rightarrow> char" where
  \<comment> \<open>lower-casing of one code unit below U+0100 (A-Z, and the Latin-1 capitals)\<close>
  "lowerChar c =
     (let n = (of_char c :: nat)
      in if (65 \<le> n \<and> n \<le> 90) \<or> (192 \<le> n \<and> n \<le> 222 \<and> n \<noteq> 215)
         then char_of (n + 32) else c)"

definition toLowerCase :: "string \<Rightarrow> string" where
  "toLowerCase s = map lowerChar s"

definition isAlnum :: "char \<Rightarrow> bool" where
  \<comment> \<open>the character class \<^verbatim>\<open>[a-z0-9]\<close>\<close>
  "isAlnum c =
     (let n = (of_char c :: nat) in (97 \<le> n \<and> n \<le> 122) \<or> (48 \<le> n \<and> n \<le> 57))"

function replaceNonAlnum :: "string \<Rightarrow> string" where
  \<comment> \<open>\<^verbatim>\<open>s.replace(/[^a-z0-9]+/g, "-")\<close>: every maximal run outside the class becomes one dash\<close>
  "replaceNonAlnum [] = []"
| "replaceNonAlnum (c # cs) =
     (if isAlnum c then c # replaceNonAlnum cs
      else CHR ''-'' # replaceNonAlnum (dropWhile (\<lambda>d. \<not> isAlnum d) cs))"
  by pat_completeness auto
termination
  by (relation "measure length") (auto simp: less_Suc_eq_le length_dropWhile_le)

definition digitChar :: "nat \<Rightarrow> char" where
  "digitChar d = char_of (48 + d)"

function numberToString :: "nat \<Rightarrow> string" where
  \<comment> \<open>the decimal rendering that a template literal gives a non-negative integer\<close>
  "numberToString n =
     (if n < 10 then [digitChar n] else numberToString (n div 10) @ [digitChar (n mod 10)])"
  by pat_completeness auto
termination
  by (relation "measure id") auto

declare numberToString.simps [simp del]

section \<open>Prompt construction\<close>

definition baseline :: string where
  \<comment> \<open>\<^verbatim>\<open>server.js\<close>, lines 27-28; a backslash at the end of a line continues the literal\<close>
  "baseline =
     ''Using the provided photo as reference, create an original baby character for the comic strip '' @
     ''  'Peanuts'. They are standing up, the background is white, and they should not have facial hair.''"

definition extended :: "string \<Rightarrow> string" where
  \<comment> \<open>\<^verbatim>\<open>server.js\<close>, lines 30-31\<close>
  "extended activity =
     ''Using the provided photo as reference, create an original baby character for the comic strip 'Peanuts'. They are '' @
     ''  standing up, the background is white, and they should not have facial hair. They are doing the following activity: '' @
     activity @ ''.''"

definition getPrompt :: "string option \<Rightarrow> string" where
  \<comment> \<open>\<^verbatim>\<open>server.js\<close>, lines 25-33; \<^verbatim>\<open>!activity\<close> holds for undefined, null and the empty string\<close>
  "getPrompt activity =
     (case activity of
        None \<Rightarrow> baseline
      | Some a \<Rightarrow> if a = [] then baseline else extended a)"

definition baseline_p001 :: string where
  \<comment> \<open>\<^verbatim>\<open>part_001\<close>, lines 121-133\<close>
  "baseline_p001 =
     ''Using the provided photo as reference, create an original baby character for the comic strip '' @
     ''  'Peanuts'. They are standing up (from hair to toe in frame), no background, and they should not have facial hair. Leave clear margin around the character's silhouette, with at least 20 pixels from the highest-point of their hair, and 20 below the lowest point of their feet. Make sure that their skin color is solid '' @
     ''      COMPOSITION RULES (CRITICAL):'' @
     ''- Full body visible with generous empty space around the character'' @
     ''- Character appears small-to-medium scale in the canvas'' @
     ''- Clear space above the head and below the feet'' @
     ''- Do not zoom in'' @
     ''- Do not crop any part of the character'' @
     ''- Character centered with visible breathing room on all sides'' @
     ''STYLE RULES:'' @
     ''- Solid opaque skin color'' @
     ''- Clean cartoon shading'' @
     ''- No facial hair''"

definition extended_p001 :: "string \<Rightarrow> string" where
  \<comment> \<open>\<^verbatim>\<open>part_001\<close>, lines 136-137\<close>
  "extended_p001 activity =
     ''Using the provided photo as reference, create an original baby character for the comic strip 'Peanuts'. They are '' @
     ''  standing up (from head to toe in frame), with no background, and they should not have facial hair. They should clearly be doing the following activity: '' @
     activity @
     ''. Leave clear margin around the character's silhouette (including top of hair and bottom of feet).''"

definition getPrompt_log_p001 :: "string option \<Rightarrow> string list" where
  \<comment> \<open>what \<^verbatim>\<open>getPrompt\<close> of \<^verbatim>\<open>part_001\<close> writes to the console (line 135)\<close>
  "getPrompt_log_p001 activity =
     (case activity of
        None \<Rightarrow> []
      | Some a \<Rightarrow> if a = [] then [] else [a @ ''activity being played and fed to GPT''])"

definition getPrompt_p001 :: "string option \<Rightarrow> string" where
  \<comment> \<open>\<^verbatim>\<open>part_001\<close>, lines 119-139: the returned prompt\<close>
  "getPrompt_p001 activity =
     (case activity of
        None \<Rightarrow> baseline_p001
      | Some a \<Rightarrow> if a = [] then baseline_p001 else extended_p001 a)"

definition PIXEL_PROMPT :: string where
  \<comment> \<open>\<^verbatim>\<open>part_002\<close>, lines 162-166: a template literal that keeps its line breaks\<close>
  \<open>PIXEL_PROMPT =
     [CHR 0x0A] @
     ''Using the provided photo as reference, create an original baby character'' @ [CHR 0x0A] @
     ''for the comic strip "Peanuts". They are standing up, the background is white,'' @ [CHR 0x0A] @
     ''and they should not have facial hair.'' @ [CHR 0x0A]\<close>

section \<open>Requests, responses and collaborators\<close>

datatype js_error = Error (message: string)

datatype json =
    JUndefined
  | JNull
  | JBool bool
  | JNum nat
  | JStr string
  | JArr "json list"
  | JObj "(string \<times> json) list"

definition js :: "string option \<Rightarrow> json" where
  \<comment> \<open>a variable holding undefined or a string\<close>
  "js v = (case v of None \<Rightarrow> JUndefined | Some s \<Rightarrow> JStr s)"

definition js_or_null :: "string option \<Rightarrow> json" where
  \<comment> \<open>a variable holding null or a string\<close>
  "js_or_null v = (case v of None \<Rightarrow> JNull | Some s \<Rightarrow> JStr s)"

definition interpolate :: "string option \<Rightarrow> string" where
  \<comment> \<open>\<^verbatim>\<open>${v}\<close> inside a template literal, for a variable holding undefined or a string\<close>
  "interpolate v = (case v of None \<Rightarrow> ''undefined'' | Some s \<Rightarrow> s)"

definition json_of_error :: "js_error \<Rightarrow> json" where
  "json_of_error e = JObj [(''message'', JStr (message e))]"

record upload_file =
  buffer :: string
  originalname :: string
  mimetype :: string
  size_f :: nat

record request =
  body :: "string \<rightharpoonup> string"
  file_r :: "upload_file option"

record response =
  status :: nat
  payload :: json

definition res_json :: "json \<Rightarrow> response" where
  \<comment> \<open>\<^verbatim>\<open>res.json(v)\<close>\<close>
  "res_json v = \<lparr>status = 200, payload = v\<rparr>"

definition res_status_json :: "nat \<Rightarrow> json \<Rightarrow> response" where
  \<comment> \<open>\<^verbatim>\<open>res.status(n).json(v)\<close>\<close>
  "res_status_json n v = \<lparr>status = n, payload = v\<rparr>"

type_synonym uploadable = "string \<times> string \<times> string"

datatype edit_request =
  EditRequest (model_p: string) (image_p: uploadable) (prompt_p: string)
    (size_p: string) (background_p: string)

datatype image_item = ImageItem (b64_json: "string option")

datatype edit_response = EditResponse (data: "image_item list option")

datatype event =
    Log string "json list"
  | LogError string "json list"
  | ImagesEdit edit_request
  | StorageUpload string string string string
  | DbInsert string "json list"
  | DbSelect string string string bool

text \<open>
  The collaborators are outside the repository. Each is a field of the environment that
  answers a call: \<open>Inl e\<close> is a rejected promise (an exception at the \<^verbatim>\<open>await\<close>),
  \<open>Inr r\<close> is the resolved value; for the Supabase calls the resolved value carries the
  \<^verbatim>\<open>error\<close> member (\<open>None\<close> for null). \<^verbatim>\<open>Date.now()\<close> is indexed by the number of
  the call inside one request, and \<open>random_id\<close> stands for
  \<^verbatim>\<open>Math.random().toString(36).slice(2, 6)\<close>.
\<close>

record env =
  toFile :: "string \<Rightarrow> string \<Rightarrow> string \<Rightarrow> js_error + uploadable"
  images_edit :: "edit_request \<Rightarrow> js_error + edit_response"
  Buffer_from :: "string \<Rightarrow> string"
  storage_upload :: "string \<Rightarrow> string \<Rightarrow> string \<Rightarrow> string \<Rightarrow> js_error + js_error option"
  storage_getPublicUrl :: "string \<Rightarrow> string \<Rightarrow> string"
  db_insert :: "string \<Rightarrow> json list \<Rightarrow> js_error + js_error option"
  db_select :: "string \<Rightarrow> string \<Rightarrow> string \<Rightarrow> bool \<Rightarrow> json \<times> js_error option"
  Date_now :: "nat \<Rightarrow> nat"
  random_id :: string
  OPENAI_IMAGE_MODEL :: string

definition raised :: "js_error + js_error option \<Rightarrow> js_error option" where
  \<comment> \<open>\<^verbatim>\<open>const { error } = await call; if (error) throw error\<close>: what reaches the catch\<close>
  "raised r = (case r of Inl e \<Rightarrow> Some e | Inr None \<Rightarrow> None | Inr (Some e) \<Rightarrow> Some e)"

definition firstB64 :: "edit_response \<Rightarrow> string option" where
  \<comment> \<open>\<^verbatim>\<open>result.data?.[0]?.b64_json\<close>\<close>
  "firstB64 result =
     (case data result of
        None \<Rightarrow> None
      | Some [] \<Rightarrow> None
      | Some (d # _) \<Rightarrow> b64_json d)"

definition uploadName :: "upload_file \<Rightarrow> string" where
  \<comment> \<open>\<^verbatim>\<open>req.file.originalname || "upload.png"\<close>\<close>
  "uploadName f = (if originalname f = [] then ''upload.png'' else originalname f)"

definition calls :: "event list \<Rightarrow> event list" where
  \<comment> \<open>the collaborator calls of a trace, without the console lines\<close>
  "calls evs = filter (\<lambda>e. case e of Log _ _ \<Rightarrow> False | LogError _ _ \<Rightarrow> False | _ \<Rightarrow> True) evs"

definition uploadPaths :: "event list \<Rightarrow> string list" where
  \<comment> \<open>the paths written in the object store, in order\<close>
  "uploadPaths evs = concat (map (\<lambda>e. case e of StorageUpload _ p _ _ \<Rightarrow> [p] | _ \<Rightarrow> []) evs)"

definition inserts :: "event list \<Rightarrow> json list" where
  \<comment> \<open>the rows handed to the record store, in order\<close>
  "inserts evs = concat (map (\<lambda>e. case e of DbInsert _ rows \<Rightarrow> rows | _ \<Rightarrow> []) evs)"

section \<open>Storage paths\<close>

definition slug :: "string \<Rightarrow> string" where
  \<comment> \<open>\<^verbatim>\<open>server.js\<close>, line 103: \<^verbatim>\<open>name.toLowerCase().replace(/[^a-z0-9]+/g, "-")\<close>\<close>
  "slug name = replaceNonAlnum (toLowerCase name)"

definition filePath :: "string \<Rightarrow> string \<Rightarrow> string" where
  \<comment> \<open>\<^verbatim>\<open>server.js\<close>, line 105: \<^verbatim>\<open>`community/${slug}-${id}.png`\<close>\<close>
  "filePath sl tok = ''community/'' @ sl @ ''-'' @ tok @ ''.png''"

definition safeNameSlug_p001 :: "string option \<Rightarrow> string option \<Rightarrow> string" where
  \<comment> \<open>\<^verbatim>\<open>part_001\<close>, lines 214-216\<close>
  "safeNameSlug_p001 firstname lastname =
     replaceNonAlnum (toLowerCase (interpolate firstname @ ''-'' @ interpolate lastname))"

definition originalFilePath_p001 :: "nat \<Rightarrow> string \<Rightarrow> string" where
  \<comment> \<open>\<^verbatim>\<open>part_001\<close>, line 218: \<^verbatim>\<open>`original_image_url/${Date.now()}-${safeNameSlug}.png`\<close>\<close>
  "originalFilePath_p001 now safeNameSlug =
     ''original_image_url/'' @ numberToString now @ ''-'' @ safeNameSlug @ ''.png''"

definition filePath_p001 :: "nat \<Rightarrow> string \<Rightarrow> string" where
  \<comment> \<open>\<^verbatim>\<open>part_001\<close>, line 270: \<^verbatim>\<open>`community/${Date.now()}-${safeNameSlug}.png`\<close>\<close>
  "filePath_p001 now safeNameSlug =
     ''community/'' @ numberToString now @ ''-'' @ safeNameSlug @ ''.png''"

definition filePath_p002 :: "nat \<Rightarrow> string \<Rightarrow> string" where
  \<comment> \<open>\<^verbatim>\<open>part_002\<close>, lines 238-240\<close>
  "filePath_p002 now name =
     ''community/'' @ numberToString now @ ''-'' @ replaceNonAlnum (toLowerCase name) @ ''.png''"

section \<open>POST /submitMember, \<^verbatim>\<open>server.js\<close>\<close>

definition imageTry :: "env \<Rightarrow> request \<Rightarrow> upload_file \<Rightarrow> string option \<Rightarrow> event list \<times> (js_error + string)" where
  \<comment> \<open>the body of the inner \<^verbatim>\<open>try\<close>, lines 61-126: the trace and either the exception
      that reaches the inner \<^verbatim>\<open>catch\<close> or the public URL\<close>
  "imageTry env req f name =
     (case toFile env (buffer f) (uploadName f) (mimetype f) of
        Inl err \<Rightarrow> ([], Inl err)
      | Inr openaiFile \<Rightarrow>
         (let activity = trimmed (body req ''activity'');
              PROMPT = getPrompt activity;
              params = EditRequest (OPENAI_IMAGE_MODEL env) openaiFile PROMPT ''1024x1024'' ''transparent'';
              ev1 = [Log ''Sending input to OpenAI.'' [], ImagesEdit params]
          in case images_edit env params of
               Inl err \<Rightarrow> (ev1, Inl err)
             | Inr result \<Rightarrow>
                (let ev2 = ev1 @ [Log ''Output received from OpenAI.'' []]
                 in case truthy (firstB64 result) of
                      None \<Rightarrow> (ev2, Inl (Error ''OpenAI returned no image data.''))
                    | Some base64 \<Rightarrow>
                      (let buffer' = Buffer_from env base64
                       in case name of
                            None \<Rightarrow>
                              (ev2, Inl (Error ''Cannot read properties of undefined (reading 'toLowerCase')''))
                          | Some nm \<Rightarrow>
                             (let id' = random_id env;
                                  filePath' = filePath (slug nm) id';
                                  ev3 = ev2 @ [Log ''Uploading image in storage:'' [JStr filePath'],
                                               StorageUpload ''neighbors'' filePath' buffer' ''image/png'']
                              in case raised (storage_upload env ''neighbors'' filePath' buffer' ''image/png'') of
                                   Some uploadError \<Rightarrow> (ev3, Inl uploadError)
                                 | None \<Rightarrow>
                                    (let imageUrl = storage_getPublicUrl env ''neighbors'' filePath'
                                     in (ev3 @ [Log ''Image successfully stored:'' [JStr imageUrl]],
                                         Inr imageUrl)))))))"

definition imageStep :: "env \<Rightarrow> request \<Rightarrow> string option \<Rightarrow> event list \<times> string \<times> string option" where
  \<comment> \<open>Step 2, lines 49-135: the trace, \<^verbatim>\<open>imageStatus\<close> and \<^verbatim>\<open>imageUrl\<close>\<close>
  "imageStep env req name =
     (case file_r req of
        None \<Rightarrow> ([Log ''No image uploaded.'' []], ''none'', None)
      | Some f \<Rightarrow>
         (let ev0 = [Log ''Image received:'' [JObj [(''type'', JStr (mimetype f)), (''size'', JNum (size_f f))]]]
          in case imageTry env req f name of
               (ev, Inr imageUrl) \<Rightarrow> (ev0 @ ev, ''ready'', Some imageUrl)
             | (ev, Inl imageError) \<Rightarrow>
                 (ev0 @ ev @ [LogError ''Image processing failed:'' [JStr (message imageError)]],
                  ''failed'', None)))"

definition submitMember :: "env \<Rightarrow> request \<Rightarrow> response \<times> event list" where
  \<comment> \<open>lines 36-162; this revision has no validation step\<close>
  "submitMember env req =
     (let name = trimmed (body req ''name'');
          email = trimmed (body req ''email'');
          location = trimmed (body req ''location'');
          ev0 = [Log ''----- NEW SUBMISSION -----'' [],
                 Log ''Incoming Neighbor:''
                   [JObj [(''name'', js name), (''email'', js email), (''location'', js location)]]]
      in case imageStep env req name of
           (ev1, imageStatus, imageUrl) \<Rightarrow>
             (let row = JObj [(''name'', js name), (''email'', js email),
                              (''image_url'', js_or_null imageUrl)];
                  ev2 = ev0 @ ev1 @ [Log ''Inserting neighbor in DB.'' [],
                                     DbInsert ''community_members'' [row]]
              in case raised (db_insert env ''community_members'' [row]) of
                   Some err \<Rightarrow>
                     (res_status_json 500 (JObj [(''error'', JStr ''Internal Server Error.'')]),
                      ev2 @ [LogError ''[/submitMember]'' [JStr (message err)]])
                 | None \<Rightarrow>
                     (res_json (JObj [(''ok'', JBool True),
                                      (''image'', JObj [(''status'', JStr imageStatus),
                                                        (''url'', js_or_null imageUrl)])]),
                      ev2 @ [Log ''User saved successfully'' []])))"

section \<open>POST /submitMember, \<^verbatim>\<open>part_001\<close>\<close>

definition generate_p001 :: "env \<Rightarrow> upload_file \<Rightarrow> string \<Rightarrow> string option \<Rightarrow> event list \<times> (js_error + string)" where
  \<comment> \<open>lines 242-290 of the inner \<^verbatim>\<open>try\<close>: generation and storage of the transformed image\<close>
  "generate_p001 env f safeNameSlug activity =
     (case toFile env (buffer f) (uploadName f) (mimetype f) of
        Inl err \<Rightarrow> ([], Inl err)
      | Inr openaiFile \<Rightarrow>
         (let PROMPT = getPrompt_p001 activity;
              params = EditRequest (OPENAI_IMAGE_MODEL env) openaiFile PROMPT ''1024x1024'' ''transparent'';
              ev1 = Log ''Sending image to OpenAI...'' []
                    # map (\<lambda>l. Log l []) (getPrompt_log_p001 activity) @ [ImagesEdit params]
          in case images_edit env params of
               Inl err \<Rightarrow> (ev1, Inl err)
             | Inr result \<Rightarrow>
                (let ev2 = ev1 @ [Log ''OpenAI image generation completed'' []]
                 in case truthy (firstB64 result) of
                      None \<Rightarrow> (ev2, Inl (Error ''OpenAI returned no image data''))
                    | Some base64 \<Rightarrow>
                      (let buffer' = Buffer_from env base64;
                           filePath' = filePath_p001 (Date_now env 1) safeNameSlug;
                           ev3 = ev2 @ [Log ''Uploading image to Supabase:'' [JStr filePath'],
                                        StorageUpload ''neighbors'' filePath' buffer' ''image/png'']
                       in case raised (storage_upload env ''neighbors'' filePath' buffer' ''image/png'') of
                            Some uploadError \<Rightarrow> (ev3, Inl uploadError)
                          | None \<Rightarrow>
                             (let imageUrl = storage_getPublicUrl env ''neighbors'' filePath'
                              in (ev3 @ [Log ''Image successfully stored:'' [JStr imageUrl]],
                                  Inr imageUrl))))))"

definition imageTry_p001 :: "env \<Rightarrow> upload_file \<Rightarrow> string option \<Rightarrow> string option \<Rightarrow> string option
    \<Rightarrow> event list \<times> string option \<times> (js_error + string)" where
  \<comment> \<open>the body of the inner \<^verbatim>\<open>try\<close>, lines 203-290: the trace, \<^verbatim>\<open>originalImageUrl\<close> as
      it stands when the block is left, and the exception or the generated image's URL\<close>
  "imageTry_p001 env f firstname lastname activity =
     (let safeNameSlug = safeNameSlug_p001 firstname lastname;
          originalFilePath = originalFilePath_p001 (Date_now env 0) safeNameSlug;
          ev1 = [Log ''Uploading original image to Supabase:'' [JStr originalFilePath],
                 StorageUpload ''neighbors'' originalFilePath (buffer f) (mimetype f)]
      in case storage_upload env ''neighbors'' originalFilePath (buffer f) (mimetype f) of
           Inl err \<Rightarrow> (ev1, None, Inl err)
         | Inr (Some originalUploadError) \<Rightarrow>
             (case generate_p001 env f safeNameSlug activity of
                (ev, r) \<Rightarrow>
                  (ev1 @ [LogError ''Original image upload failed:''
                            [JStr (message originalUploadError)]] @ ev,
                   None, r))
         | Inr None \<Rightarrow>
             (let originalImageUrl = storage_getPublicUrl env ''neighbors'' originalFilePath
              in case generate_p001 env f safeNameSlug activity of
                   (ev, r) \<Rightarrow>
                     (ev1 @ [Log ''Original image successfully stored:'' [JStr originalImageUrl]] @ ev,
                      Some originalImageUrl, r)))"

definition imageStep_p001 :: "env \<Rightarrow> request \<Rightarrow> string option \<Rightarrow> string option \<Rightarrow> string option
    \<Rightarrow> event list \<times> string option \<times> string option" where
  \<comment> \<open>lines 187-300: the trace, \<^verbatim>\<open>imageUrl\<close> and \<^verbatim>\<open>originalImageUrl\<close>\<close>
  "imageStep_p001 env req firstname lastname activity =
     (case file_r req of
        None \<Rightarrow> ([Log ''No image uploaded'' []], None, None)
      | Some f \<Rightarrow>
         (let ev0 = [Log ''Image received:''
                       [JObj [(''filename'', JStr (originalname f)), (''type'', JStr (mimetype f)),
                              (''size'', JNum (size_f f))]]]
          in case imageTry_p001 env f firstname lastname activity of
               (ev, originalImageUrl, Inr imageUrl) \<Rightarrow> (ev0 @ ev, Some imageUrl, originalImageUrl)
             | (ev, originalImageUrl, Inl imageError) \<Rightarrow>
                 (ev0 @ ev @ [LogError ''Image processing failed:'' [JStr (message imageError)]],
                  None, originalImageUrl)))"

definition memberRow_p001 :: "string option \<Rightarrow> string option \<Rightarrow> string option \<Rightarrow> string option
    \<Rightarrow> string option \<Rightarrow> string option \<Rightarrow> string option \<Rightarrow> json" where
  \<comment> \<open>the object literal of lines 313-321\<close>
  "memberRow_p001 firstname lastname email location activity imageUrl originalImageUrl =
     JObj [(''firstname'', js firstname), (''lastname'', js lastname), (''email'', js email),
           (''location'', js_or_null location), (''activity'', js_or_null activity),
           (''image_url'', js_or_null imageUrl),
           (''original_image_url'', js_or_null originalImageUrl)]"

definition missing_p001 :: "request \<Rightarrow> bool" where
  \<comment> \<open>line 172: \<^verbatim>\<open>!firstname || !lastname || !email\<close>, on the trimmed fields\<close>
  "missing_p001 req =
     (falsy (trimmed (body req ''firstname'')) \<or> falsy (trimmed (body req ''lastname''))
      \<or> falsy (trimmed (body req ''email'')))"

definition submitMember_p001 :: "env \<Rightarrow> request \<Rightarrow> response \<times> event list" where
  \<comment> \<open>lines 162-337\<close>
  "submitMember_p001 env req =
     (let firstname = trimmed (body req ''firstname'');
          lastname = trimmed (body req ''lastname'');
          email = trimmed (body req ''email'');
          location = trimmed_or_null (body req ''location'');
          activity = trimmed_or_null (body req ''activity'');
          ev0 = [Log ''----- NEW SUBMISSION -----'' []]
      in if missing_p001 req then
           (res_status_json 400 (JObj [(''error'', JStr ''Missing firstname, lastname, or email'')]),
            ev0 @ [Log ''Validation failed: missing firstname, lastname, or email'' []])
         else
           (let ev1 = ev0 @ [Log ''Incoming Neighbor:''
                               [JObj [(''firstname'', js firstname), (''lastname'', js lastname),
                                      (''email'', js email), (''location'', js_or_null location),
                                      (''activity'', js_or_null activity)]]]
            in case imageStep_p001 env req firstname lastname activity of
                 (ev2, imageUrl, originalImageUrl) \<Rightarrow>
                   (let row = memberRow_p001 firstname lastname email location activity
                                imageUrl originalImageUrl;
                        ev3 = ev1 @ ev2 @ [Log ''Saving user to database'' [],
                                           DbInsert ''community_members'' [row]]
                    in case raised (db_insert env ''community_members'' [row]) of
                         Some err \<Rightarrow>
                           (res_status_json 500
                              (JObj [(''error'', JStr ''server error while processing submission'')]),
                            ev3 @ [LogError ''Request failed:'' [json_of_error err]])
                       | None \<Rightarrow>
                           (res_json (JObj [(''ok'', JBool True)]),
                            ev3 @ [Log ''User saved successfully'' []]))))"

section \<open>POST /submitMember, \<^verbatim>\<open>part_002\<close>\<close>

definition imageBlock_p002 :: "env \<Rightarrow> upload_file \<Rightarrow> string option \<Rightarrow> event list \<times> (js_error + string)" where
  \<comment> \<open>lines 216-259: no inner \<^verbatim>\<open>try\<close>; an exception leaves the block for the handler's
      only \<^verbatim>\<open>catch\<close>\<close>
  "imageBlock_p002 env f name =
     (case toFile env (buffer f) (uploadName f) (mimetype f) of
        Inl err \<Rightarrow> ([], Inl err)
      | Inr openaiFile \<Rightarrow>
         (let params = EditRequest (OPENAI_IMAGE_MODEL env) openaiFile PIXEL_PROMPT
                         ''1024x1024'' ''transparent'';
              ev1 = [ImagesEdit params]
          in case images_edit env params of
               Inl err \<Rightarrow> (ev1, Inl err)
             | Inr result \<Rightarrow>
                (case data result of
                   None \<Rightarrow> (ev1, Inl (Error ''Cannot read properties of undefined (reading '0')''))
                 | Some [] \<Rightarrow>
                     (ev1, Inl (Error ''Cannot read properties of undefined (reading 'b64_json')''))
                 | Some (d # _) \<Rightarrow>
                    (case b64_json d of
                       None \<Rightarrow>
                         (ev1, Inl (Error ''The first argument must be of type string or an instance of Buffer, ArrayBuffer, or Array or an Array-like Object. Received undefined''))
                     | Some base64 \<Rightarrow>
                        (let buffer' = Buffer_from env base64
                         in case name of
                              None \<Rightarrow>
                                (ev1, Inl (Error ''Cannot read properties of undefined (reading 'toLowerCase')''))
                            | Some nm \<Rightarrow>
                               (let filePath' = filePath_p002 (Date_now env 0) nm;
                                    ev2 = ev1 @ [StorageUpload ''neighbors'' filePath' buffer' ''image/png'']
                                in case raised (storage_upload env ''neighbors'' filePath' buffer' ''image/png'') of
                                     Some uploadError \<Rightarrow> (ev2, Inl (Error (message uploadError)))
                                   | None \<Rightarrow>
                                       (ev2, Inr (storage_getPublicUrl env ''neighbors'' filePath'))))))))"

definition fail_p002 :: "event list \<Rightarrow> js_error \<Rightarrow> response \<times> event list" where
  \<comment> \<open>the handler's \<^verbatim>\<open>catch\<close>, lines 283-286\<close>
  "fail_p002 ev err =
     (res_status_json 500 (JObj [(''error'', JStr (message err))]),
      ev @ [LogError [] [json_of_error err]])"

definition insert_p002 :: "env \<Rightarrow> event list \<Rightarrow> string option \<Rightarrow> string option \<Rightarrow> string option
    \<Rightarrow> response \<times> event list" where
  \<comment> \<open>lines 272-281: the insert and the success response\<close>
  "insert_p002 env ev name email imageUrl =
     (let row = JObj [(''name'', js name), (''email'', js email),
                      (''image_url'', js_or_null imageUrl)];
          ev1 = ev @ [DbInsert ''community_members'' [row]]
      in case raised (db_insert env ''community_members'' [row]) of
           Some dbError \<Rightarrow> fail_p002 ev1 (Error (message dbError))
         | None \<Rightarrow> (res_json (JObj [(''ok'', JBool True)]), ev1))"

definition missing_p002 :: "request \<Rightarrow> bool" where
  \<comment> \<open>line 198: \<^verbatim>\<open>!name || !email\<close>, on the trimmed fields\<close>
  "missing_p002 req =
     (falsy (trimmed (body req ''name'')) \<or> falsy (trimmed (body req ''email'')))"

definition submitMember_p002 :: "env \<Rightarrow> request \<Rightarrow> response \<times> event list" where
  \<comment> \<open>lines 191-287\<close>
  "submitMember_p002 env req =
     (let name = trimmed (body req ''name'');
          email = trimmed (body req ''email'')
      in if missing_p002 req then
           (res_status_json 400 (JObj [(''error'', JStr ''Missing name or email'')]), [])
         else
           (case file_r req of
              None \<Rightarrow> insert_p002 env [] name email None
            | Some f \<Rightarrow>
               (case imageBlock_p002 env f name of
                  (ev, Inl err) \<Rightarrow> fail_p002 ev err
                | (ev, Inr imageUrl) \<Rightarrow> insert_p002 env ev name email (Some imageUrl))))"

section \<open>GET /community\<close>

definition listMembers :: "env \<Rightarrow> string \<Rightarrow> bool \<Rightarrow> response \<times> event list" where
  \<comment> \<open>the handler of all three revisions; they differ in the column list and in whether the
      error is written to the console (\<^verbatim>\<open>part_002\<close> does not)\<close>
  "listMembers env columns logged =
     (let ev = [DbSelect ''community_members'' columns ''created_at'' False]
      in case db_select env ''community_members'' columns ''created_at'' False of
           (d, Some error) \<Rightarrow>
             (res_status_json 500 (JObj [(''error'', JStr (message error))]),
              ev @ (if logged then [LogError ''Failed to fetch community:'' [json_of_error error]]
                    else []))
         | (d, None) \<Rightarrow> (res_json d, ev))"

definition community :: "env \<Rightarrow> response \<times> event list" where
  \<comment> \<open>\<^verbatim>\<open>server.js\<close>, lines 165-176\<close>
  "community env = listMembers env ''name,email,image_url,created_at'' True"

definition community_p001 :: "env \<Rightarrow> response \<times> event list" where
  \<comment> \<open>\<^verbatim>\<open>part_001\<close>, lines 350-364\<close>
  "community_p001 env =
     listMembers env
       ''firstname,lastname,email,location,activity,image_url,original_image_url,created_at'' True"

definition community_p002 :: "env \<Rightarrow> response \<times> event list" where
  \<comment> \<open>\<^verbatim>\<open>part_002\<close>, lines 305-316\<close>
  "community_p002 env = listMembers env ''name,email,image_url,created_at'' False"

section \<open>The record store behind GET /community\<close>

text \<open>
  The handlers only build the query and pass the answer on; projecting and ordering is done
  by the relational data service, an external collaborator. Its contract is written down
  here so that the listing can be stated over a state of the store.
\<close>

type_synonym row = "(string \<times> json) list"

definition column :: "row \<Rightarrow> string \<Rightarrow> json" where
  "column r c = (case map_of r c of None \<Rightarrow> JNull | Some v \<Rightarrow> v)"

definition timestamp :: "json \<Rightarrow> nat" where
  \<comment> \<open>a column value read as a point in time\<close>
  "timestamp v = (case v of JNum t \<Rightarrow> t | _ \<Rightarrow> 0)"

definition created_at :: "json \<Rightarrow> nat" where
  \<comment> \<open>the \<^verbatim>\<open>created_at\<close> member of a returned object\<close>
  "created_at v = (case v of JObj fs \<Rightarrow> timestamp (column fs ''created_at'') | _ \<Rightarrow> 0)"

fun splitOn :: "char \<Rightarrow> string \<Rightarrow> string list" where
  "splitOn sep [] = [[]]"
| "splitOn sep (c # cs) =
     (if c = sep then [] # splitOn sep cs
      else (case splitOn sep cs of [] \<Rightarrow> [[c]] | w # ws \<Rightarrow> (c # w) # ws))"

definition project :: "string \<Rightarrow> row \<Rightarrow> json" where
  "project columns r = JObj (map (\<lambda>c. (c, column r c)) (splitOn CHR '','' columns))"

definition relational_select :: "row list \<Rightarrow> string \<Rightarrow> string \<Rightarrow> string \<Rightarrow> bool \<Rightarrow> json \<times> js_error option" where
  \<comment> \<open>Modelled from the spec: the relational data service of section 6 ("accepts table name +
      column projection + ordering, returns row set"), whose code is not part of the
      repository: every stored row, projected to the named columns, ordered by the named
      column, ascending or descending, with no error.\<close>
  "relational_select rows table columns ord ascending =
     (let up = sort_key (\<lambda>r. timestamp (column r ord)) rows
      in (JArr (map (project columns) (if ascending then up else rev up)), None))"

section \<open>Sample collaborators and submissions\<close>

definition sample_env :: env where
  \<comment> \<open>collaborators that all succeed; the clock reads 1700000000000 ms and one more per call\<close>
  "sample_env =
     \<lparr>toFile = (\<lambda>bytes name type. Inr (bytes, name, type)),
      images_edit = (\<lambda>p. Inr (EditResponse (Some [ImageItem (Some ''aGVsbG8='')]))),
      Buffer_from = (\<lambda>b64. b64),
      storage_upload = (\<lambda>bucket path bytes type. Inr None),
      storage_getPublicUrl = (\<lambda>bucket path. ''https://x.supabase.co/storage/v1/object/public/'' @ bucket @ ''/'' @ path),
      db_insert = (\<lambda>table rows. Inr None),
      db_select = relational_select [],
      Date_now = (\<lambda>k. 1700000000000 + k),
      random_id = ''k3x9'',
      OPENAI_IMAGE_MODEL = ''gpt-image-1''\<rparr>"

definition photo :: upload_file where
  "photo = \<lparr>buffer = ''PNG-bytes'', originalname = ''me.png'', mimetype = ''image/png'', size_f = 9\<rparr>"

definition ada :: request where
  \<comment> \<open>the submission of the spec's end-to-end scenario, in the name/email schema\<close>
  "ada = \<lparr>body = [''name'' \<mapsto> ''Ada Lovelace'', ''email'' \<mapsto> ''ada@example.com''], file_r = None\<rparr>"

definition ada_p001 :: request where
  \<comment> \<open>the same submission in the firstname/lastname schema\<close>
  "ada_p001 =
     \<lparr>body = [''firstname'' \<mapsto> ''Ada'', ''lastname'' \<mapsto> ''Lovelace'', ''email'' \<mapsto> ''ada@example.com''],
      file_r = None\<rparr>"

definition ada_photo :: request where
  "ada_photo = ada\<lparr>file_r := Some photo\<rparr>"

definition ada_photo_p001 :: request where
  "ada_photo_p001 = ada_p001\<lparr>file_r := Some photo\<rparr>"

definition ada_again :: request where
  \<comment> \<open>another submission under the same name: another email, another photo\<close>
  "ada_again =
     \<lparr>body = [''name'' \<mapsto> ''Ada Lovelace'', ''email'' \<mapsto> ''countess@example.com''],
      file_r = Some \<lparr>buffer = ''JPEG-bytes'', originalname = ''portrait.jpg'',
                      mimetype = ''image/jpeg'', size_f = 10\<rparr>\<rparr>"

definition openai_down :: env where
  \<comment> \<open>the image-generation collaborator rejects every call\<close>
  "openai_down = sample_env\<lparr>images_edit := (\<lambda>p. Inl (Error ''429 Too Many Requests''))\<rparr>"



definition db_down :: env where
  \<comment> \<open>the record store rejects every insert\<close>
  "db_down = sample_env\<lparr>db_insert := (\<lambda>table rows. Inr (Some (Error ''duplicate key value'')))\<rparr>"

definition select_refused :: env where
  \<comment> \<open>the record store answers every query with an error\<close>
  "select_refused =
     sample_env\<lparr>db_select := (\<lambda>table columns ord ascending.
        (JNull, Some (Error ''connect ECONNREFUSED 10.0.0.5:5432'')))\<rparr>"

definition nameless :: request where
  \<comment> \<open>a submission whose name is blank and whose email is present\<close>
  "nameless = \<lparr>body = [''name'' \<mapsto> ''   '', ''email'' \<mapsto> ''ada@example.com''], file_r = None\<rparr>"

definition members :: "row list" where
  \<comment> \<open>a store with three rows, not in order of creation\<close>
  "members =
     [[(''name'', JStr ''Bob''), (''email'', JStr ''bob@example.com''), (''image_url'', JNull),
       (''created_at'', JNum 20)],
      [(''name'', JStr ''Ada''), (''email'', JStr ''ada@example.com''), (''image_url'', JNull),
       (''created_at'', JNum 30)],
      [(''name'', JStr ''Cy''), (''email'', JStr ''cy@example.com''), (''image_url'', JNull),
       (''created_at'', JNum 10)]]"

section \<open>Properties of prompt construction\<close>

lemma sublist_extended: "sublist a (extended a)"
proof -
  have "\<exists>ps ss. extended a = ps @ a @ ss"
    unfolding extended_def by (metis append.assoc)
  then show ?thesis by (simp add: sublist_def)
qed

lemma sublist_extended_p001: "sublist a (extended_p001 a)"
proof -
  have "\<exists>ps ss. extended_p001 a = ps @ a @ ss"
    unfolding extended_p001_def by (metis append.assoc)
  then show ?thesis by (simp add: sublist_def)
qed

lemma baseline_not_extended: "baseline \<noteq> extended a"
  by (simp add: baseline_def extended_def)

lemma baseline_not_extended_p001: "baseline_p001 \<noteq> extended_p001 a"
  by (simp add: baseline_p001_def extended_p001_def)

text \<open>
  C3. \<^verbatim>\<open>getPrompt\<close> (in \<^verbatim>\<open>server.js\<close> and in \<^verbatim>\<open>part_001\<close>) is a total function of
  the optional activity alone: an absent activity gives the fixed baseline template, a
  non-empty activity gives the extended template, which contains the activity verbatim, and
  equal inputs give equal prompts. (Totality is the absence of an error result: the
  embedding has no failing branch. The console line that \<^verbatim>\<open>part_001\<close> writes is
  \<^const>\<open>getPrompt_log_p001\<close>, a function of the same input.)
\<close>

theorem getPrompt_template:
  "getPrompt None = baseline \<and> getPrompt_p001 None = baseline_p001 \<and>
   (a \<noteq> [] \<longrightarrow>
      getPrompt (Some a) = extended a \<and> sublist a (getPrompt (Some a)) \<and>
      getPrompt_p001 (Some a) = extended_p001 a \<and> sublist a (getPrompt_p001 (Some a))) \<and>
   (x = y \<longrightarrow> getPrompt x = getPrompt y \<and> getPrompt_p001 x = getPrompt_p001 y)"
  by (simp add: getPrompt_def getPrompt_p001_def sublist_extended sublist_extended_p001)

theorem getPrompt_template_witness:
  "''surfing'' \<noteq> [] \<and> getPrompt (Some ''surfing'') = extended ''surfing'' \<and>
   sublist ''surfing'' (getPrompt (Some ''surfing'')) \<and>
   sublist ''surfing'' (getPrompt_p001 (Some ''surfing''))"
proof -
  have h: "''surfing'' \<noteq> []" by simp
  from getPrompt_template [of "''surfing''" None None] h show ?thesis by blast
qed

text \<open>
  C10. The empty string is treated like an absent activity: \<^verbatim>\<open>getPrompt("")\<close> is the
  baseline template and not the extended template around an empty activity, and so is the
  prompt for every submitted activity that is empty after trimming (as \<^verbatim>\<open>server.js\<close>
  passes it, trimmed, and as \<^verbatim>\<open>part_001\<close> passes it, trimmed and nulled).
\<close>

theorem getPrompt_empty:
  "getPrompt (Some []) = baseline \<and> getPrompt (Some []) = getPrompt None \<and>
   getPrompt (Some []) \<noteq> extended [] \<and>
   getPrompt_p001 (Some []) = baseline_p001 \<and> getPrompt_p001 (Some []) = getPrompt_p001 None \<and>
   getPrompt_p001 (Some []) \<noteq> extended_p001 [] \<and>
   (trim s = [] \<longrightarrow>
      getPrompt (trimmed (Some s)) = baseline \<and>
      getPrompt_p001 (trimmed_or_null (Some s)) = baseline_p001)"
  by (simp add: getPrompt_def getPrompt_p001_def trimmed_def trimmed_or_null_def truthy_def
        baseline_not_extended baseline_not_extended_p001)

theorem getPrompt_empty_witness:
  "trim ''  '' = [] \<and> getPrompt (trimmed (Some ''  '')) = baseline \<and>
   getPrompt_p001 (trimmed_or_null (Some ''  '')) = baseline_p001"
proof -
  have h: "trim ''  '' = []" by (simp add: trim_def isWhiteSpace_def)
  from getPrompt_empty [of "''  ''"] h show ?thesis by blast
qed

section \<open>Traces of the handlers\<close>

lemma inserts_simps:
  "inserts [] = []"
  "inserts (xs @ ys) = inserts xs @ inserts ys"
  "inserts (Log l a # xs) = inserts xs"
  "inserts (LogError l a # xs) = inserts xs"
  "inserts (ImagesEdit p # xs) = inserts xs"
  "inserts (StorageUpload b pth c t # xs) = inserts xs"
  "inserts (DbInsert tb rs # xs) = rs @ inserts xs"
  "inserts (DbSelect tb co od asc # xs) = inserts xs"
  by (simp_all add: inserts_def)

lemma calls_simps:
  "calls [] = []"
  "calls (xs @ ys) = calls xs @ calls ys"
  "calls (Log l a # xs) = calls xs"
  "calls (LogError l a # xs) = calls xs"
  "calls (ImagesEdit p # xs) = ImagesEdit p # calls xs"
  "calls (StorageUpload b pth c t # xs) = StorageUpload b pth c t # calls xs"
  "calls (DbInsert tb rs # xs) = DbInsert tb rs # calls xs"
  "calls (DbSelect tb co od asc # xs) = DbSelect tb co od asc # calls xs"
  by (simp_all add: calls_def)

lemma uploadPaths_simps:
  "uploadPaths [] = []"
  "uploadPaths (xs @ ys) = uploadPaths xs @ uploadPaths ys"
  "uploadPaths (Log l a # xs) = uploadPaths xs"
  "uploadPaths (LogError l a # xs) = uploadPaths xs"
  "uploadPaths (ImagesEdit p # xs) = uploadPaths xs"
  "uploadPaths (StorageUpload b pth c t # xs) = pth # uploadPaths xs"
  "uploadPaths (DbInsert tb rs # xs) = uploadPaths xs"
  "uploadPaths (DbSelect tb co od asc # xs) = uploadPaths xs"
  by (simp_all add: uploadPaths_def)

lemma inserts_map_Log: "inserts (map (\<lambda>l. Log l []) ls) = []"
  by (induction ls) (simp_all add: inserts_simps)

section \<open>What the handlers insert and answer\<close>

lemma inserts_generate_p001: "inserts (fst (generate_p001 env f sl act)) = []"
  by (simp add: generate_p001_def Let_def inserts_simps inserts_map_Log
        split: sum.splits option.splits)

lemma inserts_imageTry_p001: "inserts (fst (imageTry_p001 env f fn ln act)) = []"
proof (cases "generate_p001 env f (safeNameSlug_p001 fn ln) act")
  case (Pair ev r)
  with inserts_generate_p001 [of env f "safeNameSlug_p001 fn ln" act]
  have "inserts ev = []" by simp
  with Pair show ?thesis
    by (simp add: imageTry_p001_def Let_def inserts_simps split: sum.splits option.splits)
qed

lemma inserts_imageStep_p001: "inserts (fst (imageStep_p001 env req fn ln act)) = []"
proof (cases "file_r req")
  case None
  then show ?thesis by (simp add: imageStep_p001_def inserts_simps)
next
  case (Some f)
  obtain ev orig r where t: "imageTry_p001 env f fn ln act = (ev, orig, r)"
    by (cases "imageTry_p001 env f fn ln act") auto
  with inserts_imageTry_p001 [of env f fn ln act] have "inserts ev = []" by simp
  with Some t show ?thesis
    by (simp add: imageStep_p001_def Let_def inserts_simps split: sum.splits)
qed

lemma submitMember_p001_valid:
  assumes "\<not> missing_p001 req"
    and "imageStep_p001 env req (trimmed (body req ''firstname''))
           (trimmed (body req ''lastname'')) (trimmed_or_null (body req ''activity'')) = (ev, iu, ou)"
    and "row = memberRow_p001 (trimmed (body req ''firstname'')) (trimmed (body req ''lastname''))
       (trimmed (body req ''email'')) (trimmed_or_null (body req ''location''))
       (trimmed_or_null (body req ''activity'')) iu ou"
  shows "inserts (snd (submitMember_p001 env req)) = [row]"
    and "fst (submitMember_p001 env req) =
     (case raised (db_insert env ''community_members'' [row]) of
        None \<Rightarrow> res_json (JObj [(''ok'', JBool True)])
      | Some e \<Rightarrow> res_status_json 500
                    (JObj [(''error'', JStr ''server error while processing submission'')]))"
proof -
  from inserts_imageStep_p001 [of env req "trimmed (body req ''firstname'')"
      "trimmed (body req ''lastname'')" "trimmed_or_null (body req ''activity'')"] assms(2)
  have "inserts ev = []" by simp
  with assms show "inserts (snd (submitMember_p001 env req)) = [row]"
    by (simp add: submitMember_p001_def Let_def inserts_simps split: option.splits)
  from assms show "fst (submitMember_p001 env req) =
     (case raised (db_insert env ''community_members'' [row]) of
        None \<Rightarrow> res_json (JObj [(''ok'', JBool True)])
      | Some e \<Rightarrow> res_status_json 500
                    (JObj [(''error'', JStr ''server error while processing submission'')]))"
    by (simp add: submitMember_p001_def Let_def split: option.splits)
qed

lemma validation_p001:
  assumes "missing_p001 req"
  shows "fst (submitMember_p001 env req) =
           res_status_json 400 (JObj [(''error'', JStr ''Missing firstname, lastname, or email'')])"
    and "calls (snd (submitMember_p001 env req)) = []"
  using assms by (simp_all add: submitMember_p001_def Let_def calls_simps)

lemma inserts_imageTry: "inserts (fst (imageTry env req f name)) = []"
  by (simp add: imageTry_def Let_def inserts_simps split: sum.splits option.splits)

lemma inserts_imageStep: "inserts (fst (imageStep env req name)) = []"
proof (cases "file_r req")
  case None
  then show ?thesis by (simp add: imageStep_def inserts_simps)
next
  case (Some f)
  obtain ev r where t: "imageTry env req f name = (ev, r)"
    by (cases "imageTry env req f name") auto
  with inserts_imageTry [of env req f name] have "inserts ev = []" by simp
  with Some t show ?thesis
    by (simp add: imageStep_def Let_def inserts_simps split: sum.splits)
qed

lemma submitMember_any:
  assumes "imageStep env req (trimmed (body req ''name'')) = (ev, st, iu)"
    and "row = JObj [(''name'', js (trimmed (body req ''name''))),
                     (''email'', js (trimmed (body req ''email''))),
                     (''image_url'', js_or_null iu)]"
  shows "inserts (snd (submitMember env req)) = [row]"
    and "fst (submitMember env req) =
     (case raised (db_insert env ''community_members'' [row]) of
        None \<Rightarrow>
          res_json (JObj [(''ok'', JBool True),
                          (''image'', JObj [(''status'', JStr st), (''url'', js_or_null iu)])])
      | Some e \<Rightarrow> res_status_json 500 (JObj [(''error'', JStr ''Internal Server Error.'')]))"
proof -
  from inserts_imageStep [of env req "trimmed (body req ''name'')"] assms(1)
  have "inserts ev = []" by simp
  with assms show "inserts (snd (submitMember env req)) = [row]"
    by (simp add: submitMember_def Let_def inserts_simps split: option.splits)
  from assms show "fst (submitMember env req) =
     (case raised (db_insert env ''community_members'' [row]) of
        None \<Rightarrow>
          res_json (JObj [(''ok'', JBool True),
                          (''image'', JObj [(''status'', JStr st), (''url'', js_or_null iu)])])
      | Some e \<Rightarrow> res_status_json 500 (JObj [(''error'', JStr ''Internal Server Error.'')]))"
    by (simp add: submitMember_def Let_def split: option.splits)
qed

lemma validation_p002:
  assumes "missing_p002 req"
  shows "fst (submitMember_p002 env req) =
           res_status_json 400 (JObj [(''error'', JStr ''Missing name or email'')])"
    and "calls (snd (submitMember_p002 env req)) = []"
  using assms by (simp_all add: submitMember_p002_def Let_def calls_simps)





section \<open>Properties of POST /submitMember\<close>

text \<open>
  C1. A submission with a required field empty or absent after trimming should be answered
  with 400 and reach no collaborator. \<^verbatim>\<open>part_001\<close> and \<^verbatim>\<open>part_002\<close> do so
  (\<open>validation_p001\<close>, \<open>validation_p002\<close>). \<^verbatim>\<open>server.js\<close> has no such check: for a
  submission whose name is blank it inserts a row with the empty name and answers 200.
\<close>

theorem submitMember_accepts_blank_name:
  "missing_p002 nameless \<and>
   fst (submitMember sample_env nameless) =
     res_json (JObj [(''ok'', JBool True),
                     (''image'', JObj [(''status'', JStr ''none''), (''url'', JNull)])]) \<and>
   calls (snd (submitMember sample_env nameless)) =
     [DbInsert ''community_members''
        [JObj [(''name'', JStr []), (''email'', JStr ''ada@example.com''), (''image_url'', JNull)]]]"
  by (simp add: missing_p002_def submitMember_def imageStep_def nameless_def sample_env_def
        Let_def falsy_def trimmed_def trim_def isWhiteSpace_def raised_def js_def js_or_null_def
        calls_simps)


text \<open>
  C2. An error of the image-generation collaborator should be caught inside the image stage.
  \<^verbatim>\<open>part_002\<close> has no inner \<^verbatim>\<open>try\<close>: for a valid submission with a photo and a
  failing collaborator it answers 500 with the collaborator's message and inserts nothing.
\<close>

theorem image_failure_aborts_p002:
  "\<not> missing_p002 ada_photo \<and>
   fst (submitMember_p002 openai_down ada_photo) =
     res_status_json 500 (JObj [(''error'', JStr ''429 Too Many Requests'')]) \<and>
   inserts (snd (submitMember_p002 openai_down ada_photo)) = []"
  by (simp add: missing_p002_def submitMember_p002_def imageBlock_p002_def fail_p002_def
        ada_photo_def ada_def photo_def openai_down_def sample_env_def uploadName_def
        Let_def falsy_def trimmed_def trim_def isWhiteSpace_def inserts_simps)

text \<open>
  C5. In \<^verbatim>\<open>part_001\<close> (for a submission that passes validation) and in \<^verbatim>\<open>server.js\<close>
  (which validates nothing) exactly one row is handed to the record store, whatever the
  image steps did; the answer is the fixed 500 response when that insert is rejected, and
  a 200 response otherwise. So a rejected insert is fatal, and nothing else after validation
  is.
\<close>

theorem insert_failure_is_the_fatal_one:
  "(\<not> missing_p001 req \<longrightarrow>
      (\<exists>row. inserts (snd (submitMember_p001 env req)) = [row] \<and>
         (case raised (db_insert env ''community_members'' [row]) of
            Some e \<Rightarrow> fst (submitMember_p001 env req) =
                res_status_json 500
                  (JObj [(''error'', JStr ''server error while processing submission'')])
          | None \<Rightarrow> status (fst (submitMember_p001 env req)) = 200))) \<and>
   (\<exists>row. inserts (snd (submitMember env req)) = [row] \<and>
      (case raised (db_insert env ''community_members'' [row]) of
         Some e \<Rightarrow> fst (submitMember env req) =
             res_status_json 500 (JObj [(''error'', JStr ''Internal Server Error.'')])
       | None \<Rightarrow> status (fst (submitMember env req)) = 200))"
proof (intro conjI impI)
  assume v: "\<not> missing_p001 req"
  obtain ev iu ou where s: "imageStep_p001 env req (trimmed (body req ''firstname''))
           (trimmed (body req ''lastname'')) (trimmed_or_null (body req ''activity'')) = (ev, iu, ou)"
    using prod_cases3 by blast
  from submitMember_p001_valid [OF v s refl]
  show "\<exists>row. inserts (snd (submitMember_p001 env req)) = [row] \<and>
         (case raised (db_insert env ''community_members'' [row]) of
            Some e \<Rightarrow> fst (submitMember_p001 env req) =
                res_status_json 500
                  (JObj [(''error'', JStr ''server error while processing submission'')])
          | None \<Rightarrow> status (fst (submitMember_p001 env req)) = 200)"
    by (auto simp: res_json_def split: option.splits)
next
  obtain ev st iu where s: "imageStep env req (trimmed (body req ''name'')) = (ev, st, iu)"
    using prod_cases3 by blast
  from submitMember_any [OF s refl]
  show "\<exists>row. inserts (snd (submitMember env req)) = [row] \<and>
      (case raised (db_insert env ''community_members'' [row]) of
         Some e \<Rightarrow> fst (submitMember env req) =
             res_status_json 500 (JObj [(''error'', JStr ''Internal Server Error.'')])
       | None \<Rightarrow> status (fst (submitMember env req)) = 200)"
    by (auto simp: res_json_def split: option.splits)
qed


theorem insert_failure_is_the_fatal_one_witness:
  "\<not> missing_p001 ada_photo_p001 \<and>
   (\<exists>row. inserts (snd (submitMember_p001 db_down ada_photo_p001)) = [row]) \<and>
   status (fst (submitMember_p001 db_down ada_photo_p001)) = 500 \<and>
   status (fst (submitMember_p001 openai_down ada_photo_p001)) = 200 \<and>
   status (fst (submitMember openai_down ada_photo_p001)) = 200"
proof -
  have v: "\<not> missing_p001 ada_photo_p001"
    by (simp add: missing_p001_def ada_photo_p001_def ada_p001_def falsy_def trimmed_def
          trim_def isWhiteSpace_def)
  from insert_failure_is_the_fatal_one [of ada_photo_p001 db_down]
    insert_failure_is_the_fatal_one [of ada_photo_p001 openai_down] v
  show ?thesis
    by (auto simp: raised_def sample_env_def db_down_def openai_down_def res_status_json_def)
qed



text \<open>
  C8, as claimed: a valid submission without a file whose insert succeeds is answered
  \<^verbatim>\<open>{ok:true}\<close> with no image member (or an undefined one). \<^verbatim>\<open>server.js\<close> answers
  the spec's own scenario with an image member that is an object.
\<close>

theorem no_file_response_counterexample:
  "file_r ada = None \<and> \<not> missing_p002 ada \<and>
   inserts (snd (submitMember sample_env ada)) =
     [JObj [(''name'', JStr ''Ada Lovelace''), (''email'', JStr ''ada@example.com''),
            (''image_url'', JNull)]] \<and>
   fst (submitMember sample_env ada) =
     res_json (JObj [(''ok'', JBool True),
                     (''image'', JObj [(''status'', JStr ''none''), (''url'', JNull)])]) \<and>
   payload (fst (submitMember sample_env ada)) \<noteq> JObj [(''ok'', JBool True)] \<and>
   payload (fst (submitMember sample_env ada)) \<noteq> JObj [(''ok'', JBool True), (''image'', JUndefined)]"
  by (simp add: missing_p002_def submitMember_def imageStep_def ada_def sample_env_def
        Let_def falsy_def trimmed_def trim_def isWhiteSpace_def raised_def js_def js_or_null_def
        inserts_simps res_json_def)


text \<open>
  C8, amended. For every submission without a file whose insert succeeds (and that passes
  validation, where the revision validates), the row handed to the record store has
  \<^verbatim>\<open>image_url\<close> null; \<^verbatim>\<open>part_001\<close> and \<^verbatim>\<open>part_002\<close> answer 200 \<^verbatim>\<open>{ok:true}\<close>,
  and \<^verbatim>\<open>server.js\<close> answers 200 \<^verbatim>\<open>{ok:true, image:{status:"none", url:null}}\<close>.
\<close>

theorem no_file_submission:
  assumes "file_r req = None"
  shows
   "(raised (db_insert env ''community_members''
        [JObj [(''name'', js (trimmed (body req ''name''))),
               (''email'', js (trimmed (body req ''email''))), (''image_url'', JNull)]]) = None \<longrightarrow>
      fst (submitMember env req) =
        res_json (JObj [(''ok'', JBool True),
                        (''image'', JObj [(''status'', JStr ''none''), (''url'', JNull)])]) \<and>
      inserts (snd (submitMember env req)) =
        [JObj [(''name'', js (trimmed (body req ''name''))),
               (''email'', js (trimmed (body req ''email''))), (''image_url'', JNull)]]) \<and>
    (\<not> missing_p001 req \<longrightarrow>
     raised (db_insert env ''community_members''
        [memberRow_p001 (trimmed (body req ''firstname'')) (trimmed (body req ''lastname''))
           (trimmed (body req ''email'')) (trimmed_or_null (body req ''location''))
           (trimmed_or_null (body req ''activity'')) None None]) = None \<longrightarrow>
      fst (submitMember_p001 env req) = res_json (JObj [(''ok'', JBool True)]) \<and>
      inserts (snd (submitMember_p001 env req)) =
        [memberRow_p001 (trimmed (body req ''firstname'')) (trimmed (body req ''lastname''))
           (trimmed (body req ''email'')) (trimmed_or_null (body req ''location''))
           (trimmed_or_null (body req ''activity'')) None None]) \<and>
    (\<not> missing_p002 req \<longrightarrow>
     raised (db_insert env ''community_members''
        [JObj [(''name'', js (trimmed (body req ''name''))),
               (''email'', js (trimmed (body req ''email''))), (''image_url'', JNull)]]) = None \<longrightarrow>
      fst (submitMember_p002 env req) = res_json (JObj [(''ok'', JBool True)]) \<and>
      inserts (snd (submitMember_p002 env req)) =
        [JObj [(''name'', js (trimmed (body req ''name''))),
               (''email'', js (trimmed (body req ''email''))), (''image_url'', JNull)]])"
proof (intro conjI impI)
  have s: "imageStep env req (trimmed (body req ''name'')) = ([Log ''No image uploaded.'' []], ''none'', None)"
    using assms by (simp add: imageStep_def)
  assume "raised (db_insert env ''community_members''
        [JObj [(''name'', js (trimmed (body req ''name''))),
               (''email'', js (trimmed (body req ''email''))), (''image_url'', JNull)]]) = None"
  with submitMember_any [OF s refl]
  show "fst (submitMember env req) =
        res_json (JObj [(''ok'', JBool True),
                        (''image'', JObj [(''status'', JStr ''none''), (''url'', JNull)])])"
    and "inserts (snd (submitMember env req)) =
        [JObj [(''name'', js (trimmed (body req ''name''))),
               (''email'', js (trimmed (body req ''email''))), (''image_url'', JNull)]]"
    by (simp_all add: js_or_null_def)
next
  have s: "imageStep_p001 env req (trimmed (body req ''firstname''))
           (trimmed (body req ''lastname'')) (trimmed_or_null (body req ''activity''))
           = ([Log ''No image uploaded'' []], None, None)"
    using assms by (simp add: imageStep_p001_def)
  assume v: "\<not> missing_p001 req"
    and "raised (db_insert env ''community_members''
        [memberRow_p001 (trimmed (body req ''firstname'')) (trimmed (body req ''lastname''))
           (trimmed (body req ''email'')) (trimmed_or_null (body req ''location''))
           (trimmed_or_null (body req ''activity'')) None None]) = None"
  with submitMember_p001_valid [OF v s refl]
  show "fst (submitMember_p001 env req) = res_json (JObj [(''ok'', JBool True)])"
    and "inserts (snd (submitMember_p001 env req)) =
        [memberRow_p001 (trimmed (body req ''firstname'')) (trimmed (body req ''lastname''))
           (trimmed (body req ''email'')) (trimmed_or_null (body req ''location''))
           (trimmed_or_null (body req ''activity'')) None None]"
    by simp_all
next
  assume "\<not> missing_p002 req"
    and "raised (db_insert env ''community_members''
        [JObj [(''name'', js (trimmed (body req ''name''))),
               (''email'', js (trimmed (body req ''email''))), (''image_url'', JNull)]]) = None"
  with assms
  show "fst (submitMember_p002 env req) = res_json (JObj [(''ok'', JBool True)])"
    and "inserts (snd (submitMember_p002 env req)) =
        [JObj [(''name'', js (trimmed (body req ''name''))),
               (''email'', js (trimmed (body req ''email''))), (''image_url'', JNull)]]"
    by (simp_all add: submitMember_p002_def insert_p002_def Let_def js_or_null_def inserts_simps)
qed

theorem no_file_submission_witness:
  "file_r ada_p001 = None \<and> \<not> missing_p001 ada_p001 \<and>
   fst (submitMember_p001 sample_env ada_p001) = res_json (JObj [(''ok'', JBool True)]) \<and>
   inserts (snd (submitMember_p001 sample_env ada_p001)) =
     [memberRow_p001 (Some ''Ada'') (Some ''Lovelace'') (Some ''ada@example.com'') None None None None] \<and>
   file_r ada = None \<and> \<not> missing_p002 ada \<and>
   fst (submitMember_p002 sample_env ada) = res_json (JObj [(''ok'', JBool True)]) \<and>
   fst (submitMember sample_env ada) =
     res_json (JObj [(''ok'', JBool True),
                     (''image'', JObj [(''status'', JStr ''none''), (''url'', JNull)])])"
proof -
  have f: "file_r ada_p001 = None" "file_r ada = None"
    by (simp_all add: ada_p001_def ada_def)
  have v: "\<not> missing_p001 ada_p001" "\<not> missing_p002 ada"
    by (simp_all add: missing_p001_def missing_p002_def ada_p001_def ada_def falsy_def trimmed_def
          trim_def isWhiteSpace_def)
  have t: "trimmed (body ada_p001 ''firstname'') = Some ''Ada''"
    "trimmed (body ada_p001 ''lastname'') = Some ''Lovelace''"
    "trimmed (body ada_p001 ''email'') = Some ''ada@example.com''"
    "trimmed_or_null (body ada_p001 ''location'') = None"
    "trimmed_or_null (body ada_p001 ''activity'') = None"
    by (simp_all add: ada_p001_def trimmed_def trimmed_or_null_def truthy_def trim_def isWhiteSpace_def)
  have d: "\<And>rows. raised (db_insert sample_env ''community_members'' rows) = None"
    by (simp add: sample_env_def raised_def)
  from no_file_submission [OF f(1), of sample_env] no_file_submission [OF f(2), of sample_env]
    f v t d
  show ?thesis by simp
qed


section \<open>Properties of the error responses\<close>

text \<open>
  C7, as claimed: the body of a 500 response never carries the underlying error's message.
  GET /community answers a failed query with exactly that message.
\<close>

theorem query_error_body_counterexample:
  "fst (community select_refused) =
     res_status_json 500 (JObj [(''error'', JStr ''connect ECONNREFUSED 10.0.0.5:5432'')]) \<and>
   fst (community_p001 select_refused) =
     res_status_json 500 (JObj [(''error'', JStr ''connect ECONNREFUSED 10.0.0.5:5432'')])"
  by (simp add: community_def community_p001_def listMembers_def select_refused_def sample_env_def)


text \<open>
  C7, amended. When POST /submitMember of \<^verbatim>\<open>server.js\<close> or of \<^verbatim>\<open>part_001\<close> answers
  500, the body is that revision's fixed message; when the query of GET /community fails
  (in every revision), the 500 body is \<^verbatim>\<open>{error: m}\<close> with \<open>m\<close> the message of the
  underlying error.
\<close>

theorem error_bodies:
  "(status (fst (submitMember env req)) = 500 \<longrightarrow>
      payload (fst (submitMember env req)) = JObj [(''error'', JStr ''Internal Server Error.'')]) \<and>
   (status (fst (submitMember_p001 env req)) = 500 \<longrightarrow>
      payload (fst (submitMember_p001 env req)) =
        JObj [(''error'', JStr ''server error while processing submission'')]) \<and>
   (db_select env ''community_members'' ''name,email,image_url,created_at'' ''created_at'' False
      = (d, Some e) \<longrightarrow>
      fst (community env) = res_status_json 500 (JObj [(''error'', JStr (message e))]) \<and>
      fst (community_p002 env) = res_status_json 500 (JObj [(''error'', JStr (message e))])) \<and>
   (db_select env ''community_members''
      ''firstname,lastname,email,location,activity,image_url,original_image_url,created_at''
      ''created_at'' False = (d, Some e) \<longrightarrow>
      fst (community_p001 env) = res_status_json 500 (JObj [(''error'', JStr (message e))]))"
proof (intro conjI impI)
  obtain ev st iu where s: "imageStep env req (trimmed (body req ''name'')) = (ev, st, iu)"
    using prod_cases3 by blast
  assume "status (fst (submitMember env req)) = 500"
  with submitMember_any(2) [OF s refl]
  show "payload (fst (submitMember env req)) = JObj [(''error'', JStr ''Internal Server Error.'')]"
    by (auto simp: res_json_def res_status_json_def split: option.splits)
next
  assume a: "status (fst (submitMember_p001 env req)) = 500"
  show "payload (fst (submitMember_p001 env req)) =
        JObj [(''error'', JStr ''server error while processing submission'')]"
  proof (cases "missing_p001 req")
    case True
    from validation_p001(1) [OF True, of env] a show ?thesis
      by (simp add: res_status_json_def)
  next
    case False
    obtain ev iu ou where s: "imageStep_p001 env req (trimmed (body req ''firstname''))
           (trimmed (body req ''lastname'')) (trimmed_or_null (body req ''activity'')) = (ev, iu, ou)"
      using prod_cases3 by blast
    from submitMember_p001_valid(2) [OF False s refl] a show ?thesis
      by (auto simp: res_json_def res_status_json_def split: option.splits)
  qed
qed (simp_all add: community_def community_p001_def community_p002_def listMembers_def)

theorem error_bodies_witness:
  "status (fst (submitMember db_down ada)) = 500 \<and>
   payload (fst (submitMember db_down ada)) = JObj [(''error'', JStr ''Internal Server Error.'')] \<and>
   status (fst (submitMember_p001 db_down ada_p001)) = 500 \<and>
   payload (fst (submitMember_p001 db_down ada_p001)) =
     JObj [(''error'', JStr ''server error while processing submission'')] \<and>
   fst (community select_refused) =
     res_status_json 500 (JObj [(''error'', JStr ''connect ECONNREFUSED 10.0.0.5:5432'')])"
proof -
  have 1: "status (fst (submitMember db_down ada)) = 500"
    by (simp add: submitMember_def imageStep_def ada_def db_down_def sample_env_def Let_def
          raised_def res_status_json_def)
  have 2: "status (fst (submitMember_p001 db_down ada_p001)) = 500"
    by (simp add: submitMember_p001_def imageStep_p001_def missing_p001_def ada_p001_def
          db_down_def sample_env_def falsy_def trimmed_def trim_def isWhiteSpace_def raised_def
          res_status_json_def Let_def)
  have 3: "db_select select_refused ''community_members'' ''name,email,image_url,created_at''
             ''created_at'' False = (JNull, Some (Error ''connect ECONNREFUSED 10.0.0.5:5432''))"
    by (simp add: select_refused_def sample_env_def)
  from error_bodies [of db_down ada JNull "Error ''connect ECONNREFUSED 10.0.0.5:5432''"]
    error_bodies [of db_down ada_p001 JNull "Error ''connect ECONNREFUSED 10.0.0.5:5432''"]
    error_bodies [of select_refused ada JNull "Error ''connect ECONNREFUSED 10.0.0.5:5432''"] 1 2 3
  show ?thesis by simp
qed


section \<open>Properties of the storage paths\<close>

lemma dash_not_alnum: "\<not> isAlnum (CHR ''-'')"
  by (simp add: isAlnum_def)

lemma replaceNonAlnum_chars:
  "c \<in> set (replaceNonAlnum s) \<Longrightarrow> isAlnum c \<or> c = CHR ''-''"
proof (induction s rule: replaceNonAlnum.induct)
  case 1
  then show ?case by simp
next
  case (2 d ds)
  then show ?case by (auto split: if_splits)
qed

lemma replaceNonAlnum_head:
  "replaceNonAlnum (dropWhile (\<lambda>d. \<not> isAlnum d) cs) = x # xs \<Longrightarrow> isAlnum x"
proof (cases "dropWhile (\<lambda>d. \<not> isAlnum d) cs")
  case Nil
  assume "replaceNonAlnum (dropWhile (\<lambda>d. \<not> isAlnum d) cs) = x # xs"
  with Nil show ?thesis by (simp del: dropWhile_eq_Nil_conv)
next
  case (Cons y ys)
  assume a: "replaceNonAlnum (dropWhile (\<lambda>d. \<not> isAlnum d) cs) = x # xs"
  from Cons have "isAlnum y" using hd_dropWhile [of "\<lambda>d. \<not> isAlnum d" cs] by simp
  with a Cons show ?thesis by simp
qed

lemma replaceNonAlnum_no_double_dash: "\<not> sublist ''--'' (replaceNonAlnum s)"
proof (induction s rule: replaceNonAlnum.induct)
  case 1
  then show ?case by simp
next
  case (2 c cs)
  show ?case
  proof (cases "isAlnum c")
    case True
    with 2 dash_not_alnum show ?thesis
      by (auto simp: sublist_Cons_right)
  next
    case False
    have "\<not> prefix ''-'' (replaceNonAlnum (dropWhile (\<lambda>d. \<not> isAlnum d) cs))"
    proof (cases "replaceNonAlnum (dropWhile (\<lambda>d. \<not> isAlnum d) cs)")
      case Nil
      then show ?thesis by simp
    next
      case (Cons x xs)
      from replaceNonAlnum_head [OF Cons] dash_not_alnum have "x \<noteq> CHR ''-''" by auto
      with Cons show ?thesis by simp
    qed
    with False 2 show ?thesis
      by (simp add: sublist_Cons_right)
  qed
qed

lemma numberToString_nonempty: "numberToString n \<noteq> []"
  by (simp add: numberToString.simps [of n])

lemma digitChar_inj:
  assumes "a < 10" and "b < 10" and "digitChar a = digitChar b"
  shows "a = b"
proof -
  from assms(3) have "(of_char (digitChar a) :: nat) = of_char (digitChar b)" by simp
  with assms(1,2) show ?thesis by (simp add: digitChar_def)
qed

lemma numberToString_inj: "numberToString n = numberToString m \<Longrightarrow> n = m"
proof (induction n arbitrary: m rule: numberToString.induct)
  case (1 n)
  show ?case
  proof (cases "n < 10")
    case True
    show ?thesis
    proof (cases "m < 10")
      case mt: True
      from "1.prems" True mt have "digitChar n = digitChar m"
        by (simp add: numberToString.simps [of n] numberToString.simps [of m])
      with True mt show ?thesis by (intro digitChar_inj)
    next
      case mf: False
      from "1.prems" True mf numberToString_nonempty [of "m div 10"] show ?thesis
        by (simp add: numberToString.simps [of n] numberToString.simps [of m])
    qed
  next
    case False
    show ?thesis
    proof (cases "m < 10")
      case mt: True
      from "1.prems" False mt numberToString_nonempty [of "n div 10"] show ?thesis
        by (simp add: numberToString.simps [of n] numberToString.simps [of m])
    next
      case mf: False
      from "1.prems" False mf
      have e: "numberToString (n div 10) = numberToString (m div 10)"
        and d: "digitChar (n mod 10) = digitChar (m mod 10)"
        by (simp_all add: numberToString.simps [of n] numberToString.simps [of m])
      from "1.IH" [OF False e] have q: "n div 10 = m div 10" .
      from d have r: "n mod 10 = m mod 10" by (intro digitChar_inj) simp_all
      from q r show ?thesis by (metis div_mult_mod_eq)
    qed
  qed
qed

lemma numberToString_small: "n < 10 \<Longrightarrow> numberToString n = [digitChar n]"
  by (simp add: numberToString.simps [of n])

lemma numberToString_large:
  "10 \<le> n \<Longrightarrow> numberToString n = numberToString (n div 10) @ [digitChar (n mod 10)]"
  by (simp add: numberToString.simps [of n])

lemma digitChar_values:
  "digitChar 0 = CHR ''0''" "digitChar 1 = CHR ''1''" "digitChar 2 = CHR ''2''"
  "digitChar 3 = CHR ''3''" "digitChar 4 = CHR ''4''" "digitChar 5 = CHR ''5''"
  "digitChar 6 = CHR ''6''" "digitChar 7 = CHR ''7''" "digitChar 8 = CHR ''8''"
  "digitChar 9 = CHR ''9''" "digitChar (Suc 0) = CHR ''1''"
  by code_simp+

lemma numberToString_sample: "numberToString 1700000000000 = ''1700000000000''"
  by (simp add: numberToString_small numberToString_large digitChar_values)



lemma slug_Ada_Lovelace: "slug ''Ada Lovelace'' = ''ada-lovelace''"
  by code_simp

lemma filePath_p002_sample:
  "filePath_p002 1700000000000 ''Ada Lovelace'' = ''community/1700000000000-ada-lovelace.png''"
  using slug_Ada_Lovelace by (simp add: filePath_p002_def slug_def numberToString_sample)

lemma slug_punctuated: "slug ''  Ada --  LOVELACE!!'' = ''-ada-lovelace-''"
  by code_simp

lemma same_name_fields:
  "trimmed (body ada_photo ''name'') = Some ''Ada Lovelace''"
  "trimmed (body ada_again ''name'') = Some ''Ada Lovelace''"
  "trimmed (body ada_photo ''email'') = Some ''ada@example.com''"
  "trimmed (body ada_again ''email'') = Some ''countess@example.com''"
  "file_r ada_photo = Some photo"
  "file_r ada_again = Some \<lparr>buffer = ''JPEG-bytes'', originalname = ''portrait.jpg'',
                      mimetype = ''image/jpeg'', size_f = 10\<rparr>"
  by (simp_all add: ada_photo_def ada_def ada_again_def trimmed_def trim_def isWhiteSpace_def)

text \<open>
  C4, as claimed: two submissions with identical names never collide on the storage path.
  Two different submissions under one name that draw the same random token
  (\<^verbatim>\<open>server.js\<close>) or read the same millisecond (\<^verbatim>\<open>part_002\<close>) write to the same path.
\<close>

theorem same_name_same_token_counterexample:
  "ada_photo \<noteq> ada_again \<and>
   trimmed (body ada_photo ''name'') = trimmed (body ada_again ''name'') \<and>
   uploadPaths (snd (submitMember sample_env ada_photo)) = [''community/ada-lovelace-k3x9.png''] \<and>
   uploadPaths (snd (submitMember sample_env ada_again)) = [''community/ada-lovelace-k3x9.png''] \<and>
   uploadPaths (snd (submitMember_p002 sample_env ada_photo)) =
     [''community/1700000000000-ada-lovelace.png''] \<and>
   uploadPaths (snd (submitMember_p002 sample_env ada_again)) =
     [''community/1700000000000-ada-lovelace.png'']"
proof -
  note n = same_name_fields
  have d: "ada_photo \<noteq> ada_again"
    using n(3,4) by auto
  have 1: "uploadPaths (snd (submitMember sample_env ada_photo)) = [''community/ada-lovelace-k3x9.png'']"
    by (simp add: submitMember_def imageStep_def imageTry_def n sample_env_def Let_def
          firstB64_def truthy_def raised_def filePath_def slug_Ada_Lovelace uploadPaths_simps)
  have 2: "uploadPaths (snd (submitMember sample_env ada_again)) = [''community/ada-lovelace-k3x9.png'']"
    by (simp add: submitMember_def imageStep_def imageTry_def n sample_env_def Let_def
          firstB64_def truthy_def raised_def filePath_def slug_Ada_Lovelace uploadPaths_simps)
  have v: "\<not> missing_p002 ada_photo" "\<not> missing_p002 ada_again"
    by (simp_all add: missing_p002_def n falsy_def)
  have 3: "uploadPaths (snd (submitMember_p002 sample_env ada_photo)) =
     [''community/1700000000000-ada-lovelace.png'']"
    using v(1)
    by (simp add: submitMember_p002_def imageBlock_p002_def insert_p002_def n sample_env_def
          Let_def raised_def filePath_p002_sample uploadPaths_simps)
  have 4: "uploadPaths (snd (submitMember_p002 sample_env ada_again)) =
     [''community/1700000000000-ada-lovelace.png'']"
    using v(2)
    by (simp add: submitMember_p002_def imageBlock_p002_def insert_p002_def n sample_env_def
          Let_def raised_def filePath_p002_sample uploadPaths_simps)
  from n d 1 2 3 4 show ?thesis by simp
qed


lemma paths_and_tokens:
  "list_all (\<lambda>c. isAlnum c \<or> c = CHR ''-'') (slug name) \<and> \<not> sublist ''--'' (slug name) \<and>
   list_all (\<lambda>c. isAlnum c \<or> c = CHR ''-'') (safeNameSlug_p001 firstname lastname) \<and>
   \<not> sublist ''--'' (safeNameSlug_p001 firstname lastname) \<and>
   prefix ''community/'' (filePath (slug name) tok) \<and>
   prefix ''community/'' (filePath_p001 now sl) \<and>
   prefix ''community/'' (filePath_p002 now name) \<and>
   prefix ''original_image_url/'' (originalFilePath_p001 now sl) \<and>
   (filePath (slug name) tok = filePath (slug name) tok' \<longleftrightarrow> tok = tok') \<and>
   (filePath_p001 now sl = filePath_p001 now' sl \<longleftrightarrow> now = now') \<and>
   (originalFilePath_p001 now sl = originalFilePath_p001 now' sl \<longleftrightarrow> now = now') \<and>
   (filePath_p002 now name = filePath_p002 now' name \<longleftrightarrow> now = now')"
proof -
  have 1: "list_all (\<lambda>c. isAlnum c \<or> c = CHR ''-'') (replaceNonAlnum s)" for s
    using replaceNonAlnum_chars [of _ s] by (auto simp: list_all_iff)
  have 2: "numberToString a = numberToString b \<longleftrightarrow> a = b" for a b
    using numberToString_inj by auto
  show ?thesis
    by (simp add: 1 2 slug_def safeNameSlug_p001_def replaceNonAlnum_no_double_dash filePath_def
          filePath_p001_def filePath_p002_def originalFilePath_p001_def)
qed

lemma replaceNonAlnum_word:
  "list_all isAlnum w \<Longrightarrow> replaceNonAlnum (w @ x) = w @ replaceNonAlnum x"
  by (induction w) simp_all

lemma dropWhile_at_word:
  "(case v of [] \<Rightarrow> True | c # _ \<Rightarrow> isAlnum c) \<Longrightarrow> dropWhile (\<lambda>d. \<not> isAlnum d) v = v"
  by (cases v) simp_all

lemma replaceNonAlnum_run:
  assumes "r \<noteq> []" and "list_all (\<lambda>c. \<not> isAlnum c) r"
    and "case v of [] \<Rightarrow> True | c # _ \<Rightarrow> isAlnum c"
  shows "replaceNonAlnum (r @ v) = CHR ''-'' # replaceNonAlnum v"
proof (cases r)
  case Nil
  with assms(1) show ?thesis by simp
next
  case (Cons c cs)
  with assms(2) have c: "\<not> isAlnum c" and cs: "\<forall>x\<in>set cs. \<not> isAlnum x"
    by (simp_all add: list_all_iff)
  from cs have "dropWhile (\<lambda>d. \<not> isAlnum d) (cs @ v) = dropWhile (\<lambda>d. \<not> isAlnum d) v"
    by (simp add: dropWhile_append2)
  with dropWhile_at_word [OF assms(3)] Cons c show ?thesis by simp
qed

lemma slug_word: "list_all (\<lambda>c. isAlnum (lowerChar c)) w \<Longrightarrow> slug w = map lowerChar w"
  using replaceNonAlnum_word [of "map lowerChar w" "[]"]
  by (simp add: slug_def toLowerCase_def list_all_iff)

lemma lowerChar_alnum: "isAlnum c \<Longrightarrow> lowerChar c = c"
  by (auto simp: isAlnum_def lowerChar_def Let_def)

lemma slug_lower_word:
  assumes "list_all isAlnum w"
  shows "slug w = w"
proof -
  from assms have m: "map lowerChar w = w"
    by (induction w) (simp_all add: lowerChar_alnum)
  from replaceNonAlnum_word [OF assms, of "[]"] m show ?thesis
    by (simp add: slug_def toLowerCase_def)
qed

lemma slug_run:
  assumes "list_all (\<lambda>c. isAlnum (lowerChar c)) w" and "r \<noteq> []"
    and "list_all (\<lambda>c. \<not> isAlnum (lowerChar c)) r"
    and "case v of [] \<Rightarrow> True | c # _ \<Rightarrow> isAlnum (lowerChar c)"
  shows "slug (w @ r @ v) = map lowerChar w @ ''-'' @ slug v"
proof -
  have 1: "list_all isAlnum (map lowerChar w)"
    using assms(1) by (simp add: list_all_iff)
  have 2: "map lowerChar r \<noteq> []" using assms(2) by simp
  have 3: "list_all (\<lambda>c. \<not> isAlnum c) (map lowerChar r)"
    using assms(3) by (simp add: list_all_iff)
  have 4: "case map lowerChar v of [] \<Rightarrow> True | c # _ \<Rightarrow> isAlnum c"
    using assms(4) by (cases v) simp_all
  from replaceNonAlnum_word [OF 1] replaceNonAlnum_run [OF 2 3 4]
  show ?thesis by (simp add: slug_def toLowerCase_def)
qed

lemma uploadPaths_map_Log: "uploadPaths (map (\<lambda>l. Log l []) ls) = []"
  by (induction ls) (simp_all add: uploadPaths_simps)

lemma uploadPaths_imageTry:
  "uploadPaths (fst (imageTry env req f name)) = [] \<or>
   (\<exists>nm. name = Some nm \<and>
      uploadPaths (fst (imageTry env req f name)) = [filePath (slug nm) (random_id env)])"
  by (simp add: imageTry_def Let_def uploadPaths_simps split: sum.splits option.splits)

lemma uploadPaths_imageStep:
  "uploadPaths (fst (imageStep env req name)) = [] \<or>
   (\<exists>nm. name = Some nm \<and>
      uploadPaths (fst (imageStep env req name)) = [filePath (slug nm) (random_id env)])"
proof (cases "file_r req")
  case None
  then show ?thesis by (simp add: imageStep_def uploadPaths_simps)
next
  case (Some f)
  obtain ev r where t: "imageTry env req f name = (ev, r)"
    by (cases "imageTry env req f name") auto
  with uploadPaths_imageTry [of env req f name] Some show ?thesis
    by (auto simp add: imageStep_def Let_def uploadPaths_simps split: sum.splits)
qed

lemma uploadPaths_submitMember:
  "uploadPaths (snd (submitMember env req)) = [] \<or>
   (\<exists>nm. trimmed (body req ''name'') = Some nm \<and>
      uploadPaths (snd (submitMember env req)) = [filePath (slug nm) (random_id env)])"
proof -
  obtain ev st iu where s: "imageStep env req (trimmed (body req ''name'')) = (ev, st, iu)"
    using prod_cases3 by blast
  with uploadPaths_imageStep [of env req "trimmed (body req ''name'')"] show ?thesis
    by (auto simp add: submitMember_def Let_def uploadPaths_simps split: option.splits)
qed

lemma uploadPaths_imageBlock_p002:
  "uploadPaths (fst (imageBlock_p002 env f name)) = [] \<or>
   (\<exists>nm. name = Some nm \<and>
      uploadPaths (fst (imageBlock_p002 env f name)) = [filePath_p002 (Date_now env 0) nm])"
  by (simp add: imageBlock_p002_def Let_def uploadPaths_simps
        split: sum.splits option.splits list.splits)

lemma uploadPaths_submitMember_p002:
  "uploadPaths (snd (submitMember_p002 env req)) = [] \<or>
   (\<exists>nm. trimmed (body req ''name'') = Some nm \<and>
      uploadPaths (snd (submitMember_p002 env req)) = [filePath_p002 (Date_now env 0) nm])"
proof (cases "missing_p002 req")
  case True
  then show ?thesis by (simp add: submitMember_p002_def uploadPaths_simps)
next
  case False
  show ?thesis
  proof (cases "file_r req")
    case None
    with False show ?thesis
      by (simp add: submitMember_p002_def insert_p002_def fail_p002_def Let_def uploadPaths_simps
            split: option.splits)
  next
    case (Some f)
    obtain ev r where t: "imageBlock_p002 env f (trimmed (body req ''name'')) = (ev, r)"
      by (cases "imageBlock_p002 env f (trimmed (body req ''name''))") auto
    with uploadPaths_imageBlock_p002 [of env f "trimmed (body req ''name'')"] Some False
    show ?thesis
      by (auto simp add: submitMember_p002_def insert_p002_def fail_p002_def Let_def
            uploadPaths_simps split: option.splits sum.splits)
  qed
qed

lemma uploadPaths_generate_p001:
  "uploadPaths (fst (generate_p001 env f sl act)) = [] \<or>
   uploadPaths (fst (generate_p001 env f sl act)) = [filePath_p001 (Date_now env 1) sl]"
  by (simp add: generate_p001_def Let_def uploadPaths_simps uploadPaths_map_Log
        split: sum.splits option.splits)

lemma uploadPaths_imageTry_p001:
  "uploadPaths (fst (imageTry_p001 env f fn ln act)) =
     [originalFilePath_p001 (Date_now env 0) (safeNameSlug_p001 fn ln)] \<or>
   uploadPaths (fst (imageTry_p001 env f fn ln act)) =
     [originalFilePath_p001 (Date_now env 0) (safeNameSlug_p001 fn ln),
      filePath_p001 (Date_now env 1) (safeNameSlug_p001 fn ln)]"
proof (cases "generate_p001 env f (safeNameSlug_p001 fn ln) act")
  case (Pair ev r)
  with uploadPaths_generate_p001 [of env f "safeNameSlug_p001 fn ln" act] show ?thesis
    by (auto simp add: imageTry_p001_def Let_def uploadPaths_simps split: sum.splits option.splits)
qed

lemma uploadPaths_submitMember_p001:
  "uploadPaths (snd (submitMember_p001 env req)) = [] \<or>
   uploadPaths (snd (submitMember_p001 env req)) =
     [originalFilePath_p001 (Date_now env 0)
        (safeNameSlug_p001 (trimmed (body req ''firstname'')) (trimmed (body req ''lastname'')))] \<or>
   uploadPaths (snd (submitMember_p001 env req)) =
     [originalFilePath_p001 (Date_now env 0)
        (safeNameSlug_p001 (trimmed (body req ''firstname'')) (trimmed (body req ''lastname''))),
      filePath_p001 (Date_now env 1)
        (safeNameSlug_p001 (trimmed (body req ''firstname'')) (trimmed (body req ''lastname'')))]"
proof (cases "missing_p001 req")
  case True
  then show ?thesis by (simp add: submitMember_p001_def uploadPaths_simps)
next
  case False
  show ?thesis
  proof (cases "file_r req")
    case None
    with False show ?thesis
      by (simp add: submitMember_p001_def imageStep_p001_def Let_def uploadPaths_simps
            split: option.splits)
  next
    case (Some f)
    obtain ev ou r where t: "imageTry_p001 env f (trimmed (body req ''firstname''))
        (trimmed (body req ''lastname'')) (trimmed_or_null (body req ''activity'')) = (ev, ou, r)"
      using prod_cases3 by blast
    with uploadPaths_imageTry_p001 [of env f "trimmed (body req ''firstname'')"
        "trimmed (body req ''lastname'')" "trimmed_or_null (body req ''activity'')"] Some False
    show ?thesis
      by (auto simp add: submitMember_p001_def imageStep_p001_def Let_def uploadPaths_simps
            split: option.splits sum.splits)
  qed
qed


lemma lowerChar_A: "lowerChar CHR ''A'' = CHR ''a''"
  by code_simp

lemma lowerChar_L: "lowerChar CHR ''L'' = CHR ''l''"
  by code_simp

lemma witness_words:
  "list_all (\<lambda>c. isAlnum (lowerChar c)) ''Ada''"
  "list_all (\<lambda>c. \<not> isAlnum (lowerChar c)) '' ''"
  "isAlnum (lowerChar CHR ''L'')"
  "map lowerChar ''Ada'' = ''ada''"
  "list_all isAlnum ''lovelace09''"
  by (simp_all add: lowerChar_A lowerChar_L)
     (simp_all add: isAlnum_def lowerChar_def)

text \<open>
  C4, amended. The slug is the lower-cased name with every maximal run of characters outside
  a-z and 0-9 replaced by one dash: a stretch of letters and digits is kept, lower-cased; a
  run of other characters between two such stretches becomes a single dash; so the slug
  holds only a-z, 0-9 and dashes, never two dashes in a row. The path is
  \<^verbatim>\<open>community/\<close>, the slug and the uniqueness token (the random token after the slug in
  \<^verbatim>\<open>server.js\<close>, the clock reading before it in \<^verbatim>\<open>part_001\<close> and \<^verbatim>\<open>part_002\<close>),
  with \<^verbatim>\<open>original_image_url/\<close> for originals; these are the only paths the handlers
  write; and two paths for the same name fields are equal exactly when their tokens are.
\<close>

theorem storage_paths:
  "(list_all (\<lambda>c. isAlnum (lowerChar c)) w \<longrightarrow> slug w = map lowerChar w) \<and>
   (list_all isAlnum w \<longrightarrow> slug w = w) \<and>
   (list_all (\<lambda>c. isAlnum (lowerChar c)) w \<and> r \<noteq> [] \<and>
    list_all (\<lambda>c. \<not> isAlnum (lowerChar c)) r \<and>
    (case v of [] \<Rightarrow> True | c # _ \<Rightarrow> isAlnum (lowerChar c)) \<longrightarrow>
      slug (w @ r @ v) = map lowerChar w @ ''-'' @ slug v) \<and>
   slug ''  Ada --  LOVELACE!!'' = ''-ada-lovelace-'' \<and>
   list_all (\<lambda>c. isAlnum c \<or> c = CHR ''-'') (slug name) \<and> \<not> sublist ''--'' (slug name) \<and>
   safeNameSlug_p001 firstname lastname = slug (interpolate firstname @ ''-'' @ interpolate lastname) \<and>
   filePath (slug name) tok = ''community/'' @ slug name @ ''-'' @ tok @ ''.png'' \<and>
   filePath_p001 now sl = ''community/'' @ numberToString now @ ''-'' @ sl @ ''.png'' \<and>
   filePath_p002 now name = ''community/'' @ numberToString now @ ''-'' @ slug name @ ''.png'' \<and>
   originalFilePath_p001 now sl = ''original_image_url/'' @ numberToString now @ ''-'' @ sl @ ''.png'' \<and>
   (filePath (slug name) tok = filePath (slug name) tok' \<longleftrightarrow> tok = tok') \<and>
   (filePath_p001 now sl = filePath_p001 now' sl \<longleftrightarrow> now = now') \<and>
   (originalFilePath_p001 now sl = originalFilePath_p001 now' sl \<longleftrightarrow> now = now') \<and>
   (filePath_p002 now name = filePath_p002 now' name \<longleftrightarrow> now = now') \<and>
   (uploadPaths (snd (submitMember env req)) = [] \<or>
    (\<exists>nm. trimmed (body req ''name'') = Some nm \<and>
       uploadPaths (snd (submitMember env req)) = [filePath (slug nm) (random_id env)])) \<and>
   (uploadPaths (snd (submitMember_p002 env req)) = [] \<or>
    (\<exists>nm. trimmed (body req ''name'') = Some nm \<and>
       uploadPaths (snd (submitMember_p002 env req)) = [filePath_p002 (Date_now env 0) nm])) \<and>
   (uploadPaths (snd (submitMember_p001 env req)) = [] \<or>
    uploadPaths (snd (submitMember_p001 env req)) =
      [originalFilePath_p001 (Date_now env 0)
         (safeNameSlug_p001 (trimmed (body req ''firstname'')) (trimmed (body req ''lastname'')))] \<or>
    uploadPaths (snd (submitMember_p001 env req)) =
      [originalFilePath_p001 (Date_now env 0)
         (safeNameSlug_p001 (trimmed (body req ''firstname'')) (trimmed (body req ''lastname''))),
       filePath_p001 (Date_now env 1)
         (safeNameSlug_p001 (trimmed (body req ''firstname'')) (trimmed (body req ''lastname'')))])"
proof -
  note p = paths_and_tokens [where name = name and tok = tok and tok' = tok' and now = now
      and now' = now' and sl = sl]
  have a: "list_all (\<lambda>c. isAlnum (lowerChar c)) w \<longrightarrow> slug w = map lowerChar w"
    using slug_word by blast
  have b: "list_all isAlnum w \<longrightarrow> slug w = w"
    using slug_lower_word by blast
  have c: "list_all (\<lambda>c. isAlnum (lowerChar c)) w \<and> r \<noteq> [] \<and>
    list_all (\<lambda>c. \<not> isAlnum (lowerChar c)) r \<and>
    (case v of [] \<Rightarrow> True | c # _ \<Rightarrow> isAlnum (lowerChar c)) \<longrightarrow>
      slug (w @ r @ v) = map lowerChar w @ ''-'' @ slug v"
    using slug_run by blast
  have d: "safeNameSlug_p001 firstname lastname =
      slug (interpolate firstname @ ''-'' @ interpolate lastname)"
    by (simp add: safeNameSlug_p001_def slug_def)
  have e: "filePath (slug name) tok = ''community/'' @ slug name @ ''-'' @ tok @ ''.png''"
    "filePath_p001 now sl = ''community/'' @ numberToString now @ ''-'' @ sl @ ''.png''"
    "filePath_p002 now name = ''community/'' @ numberToString now @ ''-'' @ slug name @ ''.png''"
    "originalFilePath_p001 now sl = ''original_image_url/'' @ numberToString now @ ''-'' @ sl @ ''.png''"
    by (simp_all only: filePath_def filePath_p001_def filePath_p002_def originalFilePath_p001_def
          slug_def)
  from p have p1: "list_all (\<lambda>c. isAlnum c \<or> c = CHR ''-'') (slug name)"
    and p2: "\<not> sublist ''--'' (slug name)"
    and p3: "filePath (slug name) tok = filePath (slug name) tok' \<longleftrightarrow> tok = tok'"
    and p4: "filePath_p001 now sl = filePath_p001 now' sl \<longleftrightarrow> now = now'"
    and p5: "originalFilePath_p001 now sl = originalFilePath_p001 now' sl \<longleftrightarrow> now = now'"
    and p6: "filePath_p002 now name = filePath_p002 now' name \<longleftrightarrow> now = now'"
    by blast+
  show ?thesis
    by (intro conjI a b c slug_punctuated p1 p2 d e p3 p4 p5 p6 uploadPaths_submitMember
          uploadPaths_submitMember_p002 uploadPaths_submitMember_p001)
qed


theorem storage_paths_witness:
  "slug ''Ada'' = ''ada'' \<and> slug ''lovelace09'' = ''lovelace09'' \<and>
   slug ''Ada Lovelace'' = ''ada-'' @ slug ''Lovelace'' \<and>
   \<not> sublist ''--'' (slug ''  Ada --  LOVELACE!!'') \<and>
   filePath (slug ''Ada Lovelace'') ''k3x9'' \<noteq> filePath (slug ''Ada Lovelace'') ''k3xa'' \<and>
   filePath_p001 1700000000000 ''ada-lovelace'' \<noteq> filePath_p001 1700000000001 ''ada-lovelace''"
proof -
  note t1 = storage_paths [where w = "''Ada''" and r = "'' ''" and v = "''Lovelace''"
      and name = "''  Ada --  LOVELACE!!''" and firstname = None and lastname = None
      and tok = "''k3x9''" and tok' = "''k3xa''" and now = 1700000000000
      and now' = 1700000000001 and sl = "''ada-lovelace''" and env = sample_env and req = ada]
  note t2 = storage_paths [where w = "''lovelace09''" and r = "'' ''" and v = "[]"
      and name = "''Ada Lovelace''" and firstname = None and lastname = None
      and tok = "''k3x9''" and tok' = "''k3xa''" and now = 1700000000000
      and now' = 1700000000001 and sl = "''ada-lovelace''" and env = sample_env and req = ada]
  from t1 have i1: "list_all (\<lambda>c. isAlnum (lowerChar c)) ''Ada'' \<longrightarrow>
      slug ''Ada'' = map lowerChar ''Ada''"
    by (elim conjE)
  from i1 witness_words(1) have "slug ''Ada'' = map lowerChar ''Ada''" by (rule mp)
  with witness_words(4) have 1: "slug ''Ada'' = ''ada''" by (simp only:)
  from t2 have i2: "list_all isAlnum ''lovelace09'' \<longrightarrow> slug ''lovelace09'' = ''lovelace09''"
    by (elim conjE)
  from i2 witness_words(5) have 2: "slug ''lovelace09'' = ''lovelace09''" by (rule mp)
  have h: "list_all (\<lambda>c. isAlnum (lowerChar c)) ''Ada'' \<and> '' '' \<noteq> [] \<and>
    list_all (\<lambda>c. \<not> isAlnum (lowerChar c)) '' '' \<and>
    (case ''Lovelace'' of [] \<Rightarrow> True | c # _ \<Rightarrow> isAlnum (lowerChar c))"
    using witness_words(1,2,3) by simp
  from t1 have i3: "list_all (\<lambda>c. isAlnum (lowerChar c)) ''Ada'' \<and> '' '' \<noteq> [] \<and>
    list_all (\<lambda>c. \<not> isAlnum (lowerChar c)) '' '' \<and>
    (case ''Lovelace'' of [] \<Rightarrow> True | c # _ \<Rightarrow> isAlnum (lowerChar c)) \<longrightarrow>
    slug (''Ada'' @ '' '' @ ''Lovelace'') = map lowerChar ''Ada'' @ ''-'' @ slug ''Lovelace''"
    by (elim conjE)
  from i3 h have "slug (''Ada'' @ '' '' @ ''Lovelace'') = map lowerChar ''Ada'' @ ''-'' @ slug ''Lovelace''"
    by (rule mp)
  with witness_words(4) have 3: "slug ''Ada Lovelace'' = ''ada-'' @ slug ''Lovelace''" by simp
  from t1 have 4: "\<not> sublist ''--'' (slug ''  Ada --  LOVELACE!!'')" by (elim conjE)
  from t2 have "(filePath (slug ''Ada Lovelace'') ''k3x9'' = filePath (slug ''Ada Lovelace'') ''k3xa'')
      = (''k3x9'' = ''k3xa'')"
    by (elim conjE)
  then have 5: "filePath (slug ''Ada Lovelace'') ''k3x9'' \<noteq> filePath (slug ''Ada Lovelace'') ''k3xa''"
    by simp
  from t1 have "(filePath_p001 1700000000000 ''ada-lovelace'' = filePath_p001 1700000000001 ''ada-lovelace'')
      = (1700000000000 = (1700000000001 :: nat))"
    by (elim conjE)
  then have 6: "filePath_p001 1700000000000 ''ada-lovelace'' \<noteq> filePath_p001 1700000000001 ''ada-lovelace''"
    by simp
  from 1 2 3 4 5 6 show ?thesis by (intro conjI)
qed


section \<open>Properties of GET /community\<close>

lemma columns_server:
  "splitOn CHR '','' ''name,email,image_url,created_at'' =
     [''name'', ''email'', ''image_url'', ''created_at'']"
  by simp

lemma columns_p001:
  "splitOn CHR '','' ''firstname,lastname,email,location,activity,image_url,original_image_url,created_at'' =
     [''firstname'', ''lastname'', ''email'', ''location'', ''activity'', ''image_url'',
      ''original_image_url'', ''created_at'']"
  by simp

lemma created_at_project:
  "''created_at'' \<in> set (splitOn CHR '','' columns) \<Longrightarrow>
   created_at (project columns r) = timestamp (column r ''created_at'')"
  by (simp add: created_at_def project_def column_def [of "map _ _"] map_of_map_restrict)

lemma newest_first:
  assumes "''created_at'' \<in> set (splitOn CHR '','' columns)"
  shows "sorted_wrt (\<lambda>a b. created_at b \<le> created_at a)
           (map (project columns) (rev (sort_key (\<lambda>r. timestamp (column r ''created_at'')) rows)))"
proof -
  have "sorted (map (\<lambda>r. timestamp (column r ''created_at''))
                  (sort_key (\<lambda>r. timestamp (column r ''created_at'')) rows))"
    by (rule sorted_sort_key)
  then have "sorted_wrt (\<lambda>a b. timestamp (column a ''created_at'') \<le> timestamp (column b ''created_at''))
                  (sort_key (\<lambda>r. timestamp (column r ''created_at'')) rows)"
    by (simp add: sorted_wrt_map)
  then show ?thesis
    by (simp add: sorted_wrt_map sorted_wrt_rev created_at_project [OF assms])
qed

lemma listMembers_select:
  "fst (listMembers ((env :: env)\<lparr>db_select := relational_select rows\<rparr>) columns logged) =
     res_json (JArr (map (project columns)
       (rev (sort_key (\<lambda>r. timestamp (column r ''created_at'')) rows))))"
  by (simp add: listMembers_def relational_select_def Let_def)

lemma listing_members:
  "fst (community (sample_env\<lparr>db_select := relational_select members\<rparr>)) =
     res_json (JArr
       [JObj [(''name'', JStr ''Ada''), (''email'', JStr ''ada@example.com''), (''image_url'', JNull),
              (''created_at'', JNum 30)],
        JObj [(''name'', JStr ''Bob''), (''email'', JStr ''bob@example.com''), (''image_url'', JNull),
              (''created_at'', JNum 20)],
        JObj [(''name'', JStr ''Cy''), (''email'', JStr ''cy@example.com''), (''image_url'', JNull),
              (''created_at'', JNum 10)]])"
  by (simp add: community_def listMembers_select members_def timestamp_def column_def
        project_def del: splitOn.simps add: columns_server)


text \<open>
  C6. For every state of the record store, GET /community (of \<^verbatim>\<open>server.js\<close> and of
  \<^verbatim>\<open>part_001\<close>) answers 200 with one object per stored row, each row projected to the
  revision's fixed column list, ordered by \<^verbatim>\<open>created_at\<close> non-increasing; nothing is
  filtered out or cut off, and an empty store gives the empty array. The handler asks the
  relational data service for exactly this and passes its answer on unchanged; the service
  is the collaborator modelled by \<^const>\<open>relational_select\<close>.
\<close>

theorem listing_newest_first:
  "(\<exists>rs. mset rs = mset rows \<and>
      fst (community (env\<lparr>db_select := relational_select rows\<rparr>)) =
        res_json (JArr (map (project ''name,email,image_url,created_at'') rs)) \<and>
      sorted_wrt (\<lambda>a b. created_at b \<le> created_at a)
        (map (project ''name,email,image_url,created_at'') rs)) \<and>
   (\<exists>rs. mset rs = mset rows \<and>
      fst (community_p001 (env\<lparr>db_select := relational_select rows\<rparr>)) =
        res_json (JArr (map (project
          ''firstname,lastname,email,location,activity,image_url,original_image_url,created_at'') rs)) \<and>
      sorted_wrt (\<lambda>a b. created_at b \<le> created_at a)
        (map (project
          ''firstname,lastname,email,location,activity,image_url,original_image_url,created_at'') rs)) \<and>
   fst (community (env\<lparr>db_select := relational_select []\<rparr>)) = res_json (JArr []) \<and>
   fst (community_p001 (env\<lparr>db_select := relational_select []\<rparr>)) = res_json (JArr [])"
proof (intro conjI)
  let ?rs = "rev (sort_key (\<lambda>r. timestamp (column r ''created_at'')) rows)"
  have m: "mset ?rs = mset rows" by simp
  have c1: "''created_at'' \<in> set (splitOn CHR '','' ''name,email,image_url,created_at'')"
    by (simp only: columns_server) simp
  have c2: "''created_at'' \<in> set (splitOn CHR '',''
      ''firstname,lastname,email,location,activity,image_url,original_image_url,created_at'')"
    by (simp only: columns_p001) simp
  from m newest_first [OF c1, of rows] listMembers_select [where env = env and rows = rows]
  show "\<exists>rs. mset rs = mset rows \<and>
      fst (community (env\<lparr>db_select := relational_select rows\<rparr>)) =
        res_json (JArr (map (project ''name,email,image_url,created_at'') rs)) \<and>
      sorted_wrt (\<lambda>a b. created_at b \<le> created_at a)
        (map (project ''name,email,image_url,created_at'') rs)"
    unfolding community_def by blast
  from m newest_first [OF c2, of rows] listMembers_select [where env = env and rows = rows]
  show "\<exists>rs. mset rs = mset rows \<and>
      fst (community_p001 (env\<lparr>db_select := relational_select rows\<rparr>)) =
        res_json (JArr (map (project
          ''firstname,lastname,email,location,activity,image_url,original_image_url,created_at'') rs)) \<and>
      sorted_wrt (\<lambda>a b. created_at b \<le> created_at a)
        (map (project
          ''firstname,lastname,email,location,activity,image_url,original_image_url,created_at'') rs)"
    unfolding community_p001_def by blast
  show "fst (community (env\<lparr>db_select := relational_select []\<rparr>)) = res_json (JArr [])"
    by (simp add: community_def listMembers_select)
  show "fst (community_p001 (env\<lparr>db_select := relational_select []\<rparr>)) = res_json (JArr [])"
    by (simp add: community_p001_def listMembers_select)
qed


theorem listing_newest_first_witness:
  "(\<exists>rs. mset rs = mset members \<and>
      fst (community (sample_env\<lparr>db_select := relational_select members\<rparr>)) =
        res_json (JArr (map (project ''name,email,image_url,created_at'') rs))) \<and>
   map created_at
     (case payload (fst (community (sample_env\<lparr>db_select := relational_select members\<rparr>))) of
        JArr xs \<Rightarrow> xs | _ \<Rightarrow> []) = [30, 20, 10]"
  using listing_newest_first [of members sample_env] listing_members
  by (auto simp: res_json_def created_at_def column_def timestamp_def)

section \<open>Properties of the two image stores\<close>








end
